theory Spec2Isabelle
  imports Main "HOL-Library.Word" "HOL-Library.List_Lexorder"
begin

unbundle bit_operations_syntax

section \<open>Strings\<close>

text \<open>
  A JavaScript string is a sequence of UTF-16 code units.  String literals of the
  source are written with \<open>lit\<close>.
\<close>

type_synonym jschar = "16 word"
type_synonym jsstring = "jschar list"

definition lit :: "string \<Rightarrow> jsstring" where
  "lit s = map (\<lambda>c. of_nat (of_char c)) s"

text \<open>
  The character class \<open>\s\<close> of an ECMAScript regular expression: the WhiteSpace
  and LineTerminator code points (the source notes that it also matches CR and LF).
\<close>

definition isWhiteSpace :: "jschar \<Rightarrow> bool" where
  "isWhiteSpace c \<longleftrightarrow>
     c = 0x09 \<or> c = 0x0A \<or> c = 0x0B \<or> c = 0x0C \<or> c = 0x0D \<or> c = 0x20 \<or> c = 0xA0 \<or>
     c = 0x1680 \<or> (0x2000 \<le> c \<and> c \<le> 0x200A) \<or> c = 0x2028 \<or> c = 0x2029 \<or>
     c = 0x202F \<or> c = 0x205F \<or> c = 0x3000 \<or> c = 0xFEFF"

text \<open>
  The positions at which \<open>$\<close> matches under the \<open>m\<close> flag are the end of the input
  and the positions before a LineTerminator: LF, CR, U+2028, U+2029.
\<close>

definition isLineTerminator :: "jschar \<Rightarrow> bool" where
  "isLineTerminator c \<longleftrightarrow> c = 0x0A \<or> c = 0x0D \<or> c = 0x2028 \<or> c = 0x2029"

definition SPACE :: jschar where
  "SPACE = 0x20"

definition LF :: jschar where
  "LF = 0x0A"

definition CR :: jschar where
  "CR = 0x0D"

definition TAB :: jschar where
  "TAB = 0x09"

text \<open>Decimal rendering of an integer, as a template literal renders an integer-valued number
  (one of magnitude below \<open>10^21\<close>, which is written without an exponent).\<close>

fun digitsOf :: "nat \<Rightarrow> jsstring" where
  "digitsOf n = (if n < 10 then [of_nat (48 + n)] else digitsOf (n div 10) @ [of_nat (48 + n mod 10)])"

definition numberToString :: "int \<Rightarrow> jsstring" where
  "numberToString i = (if i < 0 then lit ''-'' @ digitsOf (nat (- i)) else digitsOf (nat i))"

section \<open>Whitespace-insensitive comparison of report files\<close>

text \<open>\<open>s.replace(/[\s]+/g, ' ')\<close>: scanning from the left, each match is the longest run of
  whitespace starting at the current position.\<close>

function replaceWhitespaceRuns :: "jsstring \<Rightarrow> jsstring" where
  "replaceWhitespaceRuns [] = []"
| "replaceWhitespaceRuns (c # cs) =
     (if isWhiteSpace c then SPACE # replaceWhitespaceRuns (dropWhile isWhiteSpace cs)
      else c # replaceWhitespaceRuns cs)"
  by pat_completeness auto
termination
  by (relation "measure length") (auto simp: le_imp_less_Suc length_dropWhile_le)

definition areEquivalentApiFileContents :: "jsstring \<Rightarrow> jsstring \<Rightarrow> bool" where
  "areEquivalentApiFileContents actualFileContent expectedFileContent =
     (let normalizedActual = replaceWhitespaceRuns actualFileContent;
          normalizedExpected = replaceWhitespaceRuns expectedFileContent
      in normalizedActual = normalizedExpected)"

text \<open>
  The comparison as the specification words it: every maximal run of whitespace becomes a
  single space.  The flag records whether the previous character was whitespace, so that a
  space is written exactly where a run begins.
\<close>

fun collapseRuns :: "bool \<Rightarrow> jsstring \<Rightarrow> jsstring" where
  "collapseRuns inRun [] = []"
| "collapseRuns inRun (c # cs) =
     (if isWhiteSpace c then (if inRun then collapseRuns True cs else SPACE # collapseRuns True cs)
      else c # collapseRuns False cs)"

definition collapseWhitespace :: "jsstring \<Rightarrow> jsstring" where
  "collapseWhitespace s = collapseRuns False s"

text \<open>Rewriting every LF line ending as CRLF.\<close>

fun toCrLf :: "jsstring \<Rightarrow> jsstring" where
  "toCrLf [] = []"
| "toCrLf (c # cs) = (if c = LF then CR # LF # toCrLf cs else c # toCrLf cs)"

section \<open>Trailing spaces\<close>

text \<open>
  \<open>s.replace(/ +$/gm, '')\<close> with \<open>_trimSpacesRegExp = / +$/gm\<close>: a match at a position is
  the longest run of U+0020 starting there, provided the run is followed by the end of the
  input or by a line terminator; a shorter run is followed by a space and cannot match.
\<close>

function trimSpaces :: "jsstring \<Rightarrow> jsstring" where
  "trimSpaces [] = []"
| "trimSpaces (c # cs) =
     (if c = SPACE then
        (let rest = dropWhile (\<lambda>x. x = SPACE) cs
         in if rest = [] \<or> isLineTerminator (hd rest) then trimSpaces rest
            else c # trimSpaces cs)
      else c # trimSpaces cs)"
  by pat_completeness auto
termination
  by (relation "measure length") (auto simp: le_imp_less_Suc length_dropWhile_le)

text \<open>The lines of a text, separated by LF.\<close>

fun splitLines :: "jsstring \<Rightarrow> jsstring list" where
  "splitLines [] = [[]]"
| "splitLines (c # cs) =
     (if c = LF then [] # splitLines cs
      else (case splitLines cs of [] \<Rightarrow> [[c]] | l # ls \<Rightarrow> (c # l) # ls))"


text \<open>
  \<open>String.prototype.substring\<close>: both indices are clamped to the length and swapped
  when the first exceeds the second.
\<close>

definition substring :: "jsstring \<Rightarrow> nat \<Rightarrow> nat \<Rightarrow> jsstring" where
  "substring text a b =
     (let a' = min a (length text); b' = min b (length text)
      in take (max a' b' - min a' b') (drop (min a' b') text))"

section \<open>Release levels and release tags\<close>

text \<open>
  \<open>enum ApiReportReleaseLevel\<close>.  At run time a release level is a number, and a value
  outside the enumeration can reach the generator, so a level is an integer and the four
  members are constants.
\<close>

type_synonym ApiReportReleaseLevel = int

definition Untrimmed :: ApiReportReleaseLevel where
  "Untrimmed = 0"

definition Alpha :: ApiReportReleaseLevel where
  "Alpha = 1"

definition Beta :: ApiReportReleaseLevel where
  "Beta = 2"

definition Public :: ApiReportReleaseLevel where
  "Public = 3"

text \<open>
  Modelled from the spec: the enumeration \<open>ReleaseTag\<close> of the package
  api-extractor-model, whose declaration is not among the sources.  The specification orders
  the tags alpha < beta < public and treats an unspecified tag (\<open>None\<close>) apart; the
  generator's own comments also name the tag \<open>@internal\<close>, which is placed below alpha.
\<close>

datatype ReleaseTag =
  ReleaseTag_None | ReleaseTag_Internal | ReleaseTag_Alpha | ReleaseTag_Beta | ReleaseTag_Public

fun tagValue :: "ReleaseTag \<Rightarrow> int" where
  "tagValue ReleaseTag_None = 0"
| "tagValue ReleaseTag_Internal = 1"
| "tagValue ReleaseTag_Alpha = 2"
| "tagValue ReleaseTag_Beta = 3"
| "tagValue ReleaseTag_Public = 4"

section \<open>Syntax nodes, declarations, entities\<close>

text \<open>The members of \<open>ts.SyntaxKind\<close> that the generator names; every other kind is \<open>OtherKind\<close>.\<close>

datatype SyntaxKind =
  JSDocComment | ExportKeyword | DefaultKeyword | DeclareKeyword
  | InterfaceKeyword | ClassKeyword | EnumKeyword | NamespaceKeyword | ModuleKeyword
  | TypeKeyword | FunctionKeyword | SyntaxList | VariableDeclaration | VariableDeclarationList
  | Identifier | TypeLiteral | ImportType | ModuleBlock | OtherKind nat

text \<open>A syntax node: its kind, its text range \<open>[getStart, nodeEnd)\<close> in the source file and its
  children in source order.\<close>

datatype Node = Node (nodeKind: SyntaxKind) (getStart: nat) (nodeEnd: nat) (getChildren: "Node list")

record AstDeclaration =
  declarationNode :: Node
  modifierFlags :: int
  localName :: jsstring

datatype DocComment = DocComment (deprecatedBlock: bool)

record ApiItemMetadata =
  effectiveReleaseTag :: ReleaseTag
  releaseTagSameAsParent :: bool
  isPreapproved :: bool
  isSealed :: bool
  isVirtual :: bool
  isOverride :: bool
  isEventProperty :: bool
  tsdocComment :: "DocComment option"
  undocumented :: bool

datatype AstEntity =
  AstSymbol (entityLocalName: jsstring) (astDeclarations: "AstDeclaration list")
  | AstImport (entityLocalName: jsstring)
  | AstNamespaceImport (entityLocalName: jsstring) (namespaceDeclaration: Node)

record AstModuleExportInfo =
  exportedLocalEntities :: "(jsstring \<times> AstEntity) list"
  starExportedExternalModules :: "jsstring list"

record CollectorEntity =
  astEntity :: AstEntity
  consumable :: bool
  exportNames :: "jsstring list"
  shouldInlineExport :: bool
  nameForEmit :: "jsstring option"

record ExtractorMessage =
  messageText :: jsstring
  properties_exportName :: "jsstring option"

datatype ExtractorMessageId = Undocumented | OtherMessageId jsstring

datatype error = Error jsstring | InternalError jsstring | TypeError jsstring

text \<open>
  The calls that the generator makes on an \<open>IndentedWriter\<close>, in order.  The class is not
  among the sources, nor is \<open>DtsEmitHelpers\<close>, whose emitters write to the same writer; the
  text of a writer is taken from \<open>writerToString\<close> below.
\<close>

datatype WriterCall =
  SetTrimLeadingSpaces bool | Write jsstring | WriteLine jsstring
  | EnsureNewLine | EnsureSkippedLine | IncreaseIndent | DecreaseIndent
  | EmitImport CollectorEntity AstEntity | EmitNamedExport jsstring CollectorEntity
  | EmitStarExports

type_synonym IndentedWriter = "WriterCall list"

record IApiReportOptions =
  releaseLevel :: ApiReportReleaseLevel

record IExportToEmit =
  exportName :: jsstring
  associatedMessages :: "ExtractorMessage list"

section \<open>Spans\<close>

text \<open>
  Modelled from the spec: the classes \<open>Span\<close> and \<open>SpanModification\<close> (analyzer/Span.ts is
  not among the sources).  A span mirrors one syntax node.  Its own text is the part of the
  node's range that its children do not cover: the text before the first child
  (\<open>spanPrefix\<close>, the whole range for a leaf), the text after the last child
  (\<open>spanSuffix\<close>) and, held by each child, the text between that child and its next
  sibling (\<open>separator\<close>).  The overlay (\<open>modification\<close>) has the fields of the
  specification; \<open>prefix\<close> and \<open>suffix\<close>, once assigned, replace the leading and trailing
  own text, which is how the generator renames an identifier and how it prepends
  \<open>export\<close> to what a keyword span already shows.
\<close>

record SpanModification =
  skipOwnText :: bool
  skipSubtree :: bool
  prefix :: "jsstring option"
  suffix :: "jsstring option"
  omitSeparatorAfter :: bool
  sortChildren :: bool
  sortKey :: "jsstring option"

datatype Span =
  Span (kind: SyntaxKind) (node: Node) (spanPrefix: jsstring) (spanSuffix: jsstring)
    (separator: jsstring) (modification: SpanModification) (children: "Span list")

definition defaultModification :: SpanModification where
  "defaultModification =
     \<lparr>skipOwnText = False, skipSubtree = False, prefix = None, suffix = None,
      omitSeparatorAfter = False, sortChildren = False, sortKey = None\<rparr>"

text \<open>
  Modelled from the spec: the constructor \<open>new Span(node)\<close>, given the text of the node's
  source file.  Child spans are built in source order with the default overlay.  The second
  argument is the position at which the separator after the node ends: the start of the next
  sibling, or the node's own end when it has none.
\<close>

fun Span_new :: "jsstring \<Rightarrow> nat \<Rightarrow> Node \<Rightarrow> Span"
  and childSpans :: "jsstring \<Rightarrow> Node list \<Rightarrow> Span list" where
  "Span_new text sepEnd (Node k s e cs) =
     Span k (Node k s e cs)
       (case cs of [] \<Rightarrow> substring text s e | c # _ \<Rightarrow> substring text s (getStart c))
       (case cs of [] \<Rightarrow> [] | _ # _ \<Rightarrow> substring text (nodeEnd (last cs)) e)
       (substring text e sepEnd)
       defaultModification
       (childSpans text cs)"
| "childSpans text [] = []"
| "childSpans text [c] = [Span_new text (nodeEnd c) c]"
| "childSpans text (c # c' # cs) = Span_new text (getStart c') c # childSpans text (c' # cs)"

definition newSpan :: "jsstring \<Rightarrow> Node \<Rightarrow> Span" where
  "newSpan text n = Span_new text (nodeEnd n) n"

text \<open>
  Modelled from the spec: the accessors of \<open>span.modification\<close> that the generator reads and
  assigns.  Reading \<open>prefix\<close> gives the assigned prefix or, while none is assigned, the
  leading own text that the span would be written with.
\<close>

definition getPrefix :: "Span \<Rightarrow> jsstring" where
  "getPrefix span =
     (case prefix (modification span) of Some p \<Rightarrow> p
      | None \<Rightarrow> if skipOwnText (modification span) then [] else spanPrefix span)"

fun mapModification :: "(SpanModification \<Rightarrow> SpanModification) \<Rightarrow> Span \<Rightarrow> Span" where
  "mapModification f (Span k n pre suf sep m cs) = Span k n pre suf sep (f m) cs"

fun setChildren :: "Span list \<Rightarrow> Span \<Rightarrow> Span" where
  "setChildren cs' (Span k n pre suf sep m cs) = Span k n pre suf sep m cs'"

definition setPrefix :: "jsstring \<Rightarrow> Span \<Rightarrow> Span" where
  "setPrefix p span = mapModification (\<lambda>m. m\<lparr>prefix := Some p\<rparr>) span"

definition setSuffix :: "jsstring \<Rightarrow> Span \<Rightarrow> Span" where
  "setSuffix p span = mapModification (\<lambda>m. m\<lparr>suffix := Some p\<rparr>) span"

definition setOmitSeparatorAfter :: "bool \<Rightarrow> Span \<Rightarrow> Span" where
  "setOmitSeparatorAfter b span = mapModification (\<lambda>m. m\<lparr>omitSeparatorAfter := b\<rparr>) span"

definition setSortKey :: "jsstring \<Rightarrow> Span \<Rightarrow> Span" where
  "setSortKey k span = mapModification (\<lambda>m. m\<lparr>sortKey := Some k\<rparr>) span"

text \<open>
  Modelled from the spec: \<open>SpanModification.skipAll()\<close>.  The specification describes its two
  uses as suppressing the span's own text and suppressing its entire subtree.
\<close>

definition skipAll :: "SpanModification \<Rightarrow> SpanModification" where
  "skipAll m = m\<lparr>skipOwnText := True, skipSubtree := True\<rparr>"

text \<open>
  Modelled from the spec: \<open>Span.writeModifiedText\<close>, the span writer of section 4.2.
  A skipped subtree writes nothing.  Otherwise the prefix is written, then the children in
  their current order, each followed by the separator of its position unless the child
  omits it, then the suffix.  With \<open>sortChildren\<close> the children that carry a sort key are
  stably reordered by key among the positions they occupy; the others keep their places.
\<close>

fun fillSlots :: "(Span \<times> jsstring) list \<Rightarrow> (Span \<times> jsstring) list \<Rightarrow> (Span \<times> jsstring) list" where
  "fillSlots [] sortedSubset = []"
| "fillSlots ((c, t) # rest) sortedSubset =
     (if sortKey (modification c) = None then (c, t) # fillSlots rest sortedSubset
      else (case sortedSubset of [] \<Rightarrow> (c, t) # fillSlots rest []
            | x # sortedRest \<Rightarrow> x # fillSlots rest sortedRest))"

definition sortKeyOf :: "Span \<times> jsstring \<Rightarrow> jsstring" where
  "sortKeyOf ct = (case sortKey (modification (fst ct)) of Some k \<Rightarrow> k | None \<Rightarrow> [])"

definition reorderChildren :: "(Span \<times> jsstring) list \<Rightarrow> (Span \<times> jsstring) list" where
  "reorderChildren cts =
     fillSlots cts (sort_key sortKeyOf (filter (\<lambda>ct. sortKey (modification (fst ct)) \<noteq> None) cts))"

fun interleave :: "bool \<Rightarrow> (Span \<times> jsstring) list \<Rightarrow> jsstring list \<Rightarrow> jsstring" where
  "interleave skipOwn [] seps = []"
| "interleave skipOwn ((c, t) # rest) seps =
     t @ (if omitSeparatorAfter (modification c) \<or> skipOwn then []
          else (case seps of [] \<Rightarrow> [] | s # _ \<Rightarrow> s))
       @ interleave skipOwn rest (tl seps)"

fun writeModifiedText :: "Span \<Rightarrow> jsstring" where
  "writeModifiedText (Span k n pre suf sep m cs) =
     (if skipSubtree m then []
      else (case prefix m of Some p \<Rightarrow> p | None \<Rightarrow> if skipOwnText m then [] else pre)
         @ (let cts = map (\<lambda>c. (c, writeModifiedText c)) cs
            in interleave (skipOwnText m) (if sortChildren m then reorderChildren cts else cts)
                 (map separator cs))
         @ (case suffix m of Some s \<Rightarrow> s | None \<Rightarrow> if skipOwnText m then [] else suf))"

text \<open>A syntax tree is well formed when the ranges of the children of every node are
  ordered, disjoint and inside the range of the node.\<close>

fun rangesOrdered :: "nat \<Rightarrow> nat \<Rightarrow> Node list \<Rightarrow> bool" where
  "rangesOrdered lo hi [] = (lo \<le> hi)"
| "rangesOrdered lo hi (c # cs) = (lo \<le> getStart c \<and> getStart c \<le> nodeEnd c \<and> rangesOrdered (nodeEnd c) hi cs)"

fun wellFormed :: "Node \<Rightarrow> bool" where
  "wellFormed (Node k s e cs) = (rangesOrdered s e cs \<and> list_all wellFormed cs)"


section \<open>The collector and the library functions\<close>

text \<open>
  The collector as the generator uses it.  Its message router is mutable; \<open>'r\<close> is the
  router's state, passed through every call that fetches or adds messages.
\<close>

record 'r Collector =
  workingPackage_name :: jsstring
  workingPackage_packageFolder :: jsstring
  workingPackage_tsdocComment :: "DocComment option"
  dtsTypeReferenceDirectives :: "jsstring list"
  dtsLibReferenceDirectives :: "jsstring list"
  entities :: "CollectorEntity list"
  apiReportIncludeForgottenExports :: bool
  fetchApiItemMetadata :: "AstDeclaration \<Rightarrow> ApiItemMetadata"
  isAncillaryDeclaration :: "AstDeclaration \<Rightarrow> bool"
  tryGetEntityForNode :: "Node \<Rightarrow> CollectorEntity option"
  tryGetCollectorEntity :: "AstEntity \<Rightarrow> CollectorEntity option"
  getChildAstDeclarationByNode :: "Node \<Rightarrow> AstDeclaration \<Rightarrow> error + AstDeclaration"
  fetchAstModuleExportInfo :: "AstEntity \<Rightarrow> AstModuleExportInfo"
  fetchAssociatedMessagesForReviewFile :: "AstDeclaration \<Rightarrow> 'r \<Rightarrow> ExtractorMessage list \<times> 'r"
  fetchUnassociatedMessagesForReviewFile :: "'r \<Rightarrow> ExtractorMessage list \<times> 'r"
  addAnalyzerIssue :: "ExtractorMessageId \<Rightarrow> jsstring \<Rightarrow> AstDeclaration \<Rightarrow> 'r \<Rightarrow> 'r"

text \<open>
  The result of rewriting one span: nothing when the recursion budget is used up, an error
  when the source throws, otherwise the previous sibling (which the rewrite may have
  changed), the span and the router's state.
\<close>

type_synonym 'r ModifyResult = "(error + Span option \<times> Span \<times> 'r) option"

text \<open>The callback that \<open>_modifySpan\<close> hands to \<open>modifyImportTypeSpan\<close>; the kind of the parent
  and the previous sibling of the span are passed with it.\<close>

type_synonym 'r ModifyNestedSpan =
  "SyntaxKind option \<Rightarrow> Span option \<Rightarrow> Span \<Rightarrow> AstDeclaration \<Rightarrow> 'r \<Rightarrow> 'r ModifyResult"

text \<open>
  What the generator takes from modules that are not among the sources: the TypeScript
  compiler (\<open>ModifierFlags.Private\<close>, the text of a node's source file, the declarations of a
  declaration list), \<open>TypeScriptHelpers.matchAncestor\<close>, \<open>AstDeclaration.isSupportedSyntaxKind\<close>,
  \<open>Collector.getSortKeyIgnoringUnderscore\<close>, \<open>DtsEmitHelpers.modifyImportTypeSpan\<close>,
  \<open>IndentedWriter.toString\<close>, \<open>Text.convertToLf\<close>, \<open>ReleaseTag.getTagName\<close>,
  \<open>SourceFileLocationFormatter.formatDeclaration\<close> and the two formatters of a message.
\<close>

record 'r Extern =
  ModifierFlags_Private :: int
  sourceFileText :: "Node \<Rightarrow> jsstring"
  listDeclarations :: "Node \<Rightarrow> Node list"
  matchAncestor :: "Node \<Rightarrow> SyntaxKind list \<Rightarrow> Node option"
  isSupportedSyntaxKind :: "SyntaxKind \<Rightarrow> bool"
  getSortKeyIgnoringUnderscore :: "jsstring \<Rightarrow> jsstring"
  modifyImportTypeSpan ::
    "'r Collector \<Rightarrow> 'r ModifyNestedSpan \<Rightarrow> Span \<Rightarrow> AstDeclaration \<Rightarrow> 'r \<Rightarrow> (error + Span \<times> 'r) option"
  writerToString :: "IndentedWriter \<Rightarrow> jsstring"
  convertToLf :: "jsstring \<Rightarrow> jsstring"
  getTagName :: "ReleaseTag \<Rightarrow> jsstring"
  formatDeclaration :: "Node \<Rightarrow> jsstring"
  formatMessageWithoutLocation :: "ExtractorMessage \<Rightarrow> jsstring"
  formatMessageWithLocation :: "ExtractorMessage \<Rightarrow> jsstring \<Rightarrow> jsstring"

section \<open>The inclusion predicate\<close>

text \<open>\<open>_shouldIncludeInReport\<close>.  The \<open>default\<close> branch of the switch throws.\<close>

definition shouldIncludeInReport ::
  "'r Extern \<Rightarrow> 'r Collector \<Rightarrow> AstDeclaration \<Rightarrow> ApiReportReleaseLevel \<Rightarrow> error + bool" where
  "shouldIncludeInReport ext collector astDeclaration level =
     (if (modifierFlags astDeclaration AND ModifierFlags_Private ext) \<noteq> 0 then Inr False
      else
        let apiItemMetadata = fetchApiItemMetadata collector astDeclaration;
            releaseTag =
              (if effectiveReleaseTag apiItemMetadata = ReleaseTag_None then ReleaseTag_Public
               else effectiveReleaseTag apiItemMetadata)
        in if level = Untrimmed then Inr True
           else if level = Alpha then Inr (tagValue releaseTag \<ge> tagValue ReleaseTag_Alpha)
           else if level = Beta then Inr (tagValue releaseTag \<ge> tagValue ReleaseTag_Beta)
           else if level = Public then Inr (releaseTag = ReleaseTag_Public)
           else Inl (Error (lit ''Unrecognized release level: '' @ numberToString level)))"

section \<open>The policy for preapproved declarations\<close>

definition preapprovedSuffix :: jsstring where
  "preapprovedSuffix = lit '' { /* (preapproved) */ }''"

text \<open>The loop of \<open>_modifySpanForPreapproved\<close> over \<open>span.children\<close>; the flag is \<open>skipRest\<close>.\<close>

fun preapprovedChildren :: "bool \<Rightarrow> Span list \<Rightarrow> Span list" where
  "preapprovedChildren skipRest [] = []"
| "preapprovedChildren skipRest (child # rest) =
     (let child1 =
        (if skipRest \<or> kind child = SyntaxList \<or> kind child = JSDocComment
         then mapModification skipAll child else child)
      in if kind child = Identifier
         then setSuffix preapprovedSuffix (setOmitSeparatorAfter True child1)
                # preapprovedChildren True rest
         else child1 # preapprovedChildren skipRest rest)"

definition modifySpanForPreapproved :: "Span \<Rightarrow> Span" where
  "modifySpanForPreapproved span = setChildren (preapprovedChildren False (children span)) span"


section \<open>The synopsis of a declaration\<close>

definition joinStrings :: "jsstring \<Rightarrow> jsstring list \<Rightarrow> jsstring" where
  "joinStrings sep parts = (case parts of [] \<Rightarrow> [] | p # ps \<Rightarrow> p @ concat (map (\<lambda>q. sep @ q) ps))"

definition DQUOTE :: jschar where
  "DQUOTE = 0x22"

text \<open>\<open>_writeLineAsComments\<close>.\<close>

definition writeLineAsComments :: "'r Extern \<Rightarrow> IndentedWriter \<Rightarrow> jsstring \<Rightarrow> IndentedWriter" where
  "writeLineAsComments ext writer line =
     writer @ concat (map (\<lambda>realLine. [Write (lit ''// ''), Write realLine, WriteLine []])
                       (splitLines (convertToLf ext line)))"

text \<open>\<open>_getAedocSynopsis\<close>, with its own writer; an undocumented declaration adds an issue to
  the router.\<close>

definition getAedocSynopsis ::
  "'r Extern \<Rightarrow> 'r Collector \<Rightarrow> AstDeclaration \<Rightarrow> ExtractorMessage list \<Rightarrow> 'r \<Rightarrow> jsstring \<times> 'r" where
  "getAedocSynopsis ext collector astDeclaration messagesToReport st =
     (let writer0 =
            foldl (\<lambda>w message.
                     writeLineAsComments ext w
                       (lit ''Warning: '' @ formatMessageWithoutLocation ext message))
              [] messagesToReport
      in if \<not> isAncillaryDeclaration collector astDeclaration then
           (let apiItemMetadata = fetchApiItemMetadata collector astDeclaration;
                footerParts =
                  (if \<not> releaseTagSameAsParent apiItemMetadata
                      \<and> effectiveReleaseTag apiItemMetadata \<noteq> ReleaseTag_None
                   then [getTagName ext (effectiveReleaseTag apiItemMetadata)] else [])
                  @ (if isSealed apiItemMetadata then [lit ''@sealed''] else [])
                  @ (if isVirtual apiItemMetadata then [lit ''@virtual''] else [])
                  @ (if isOverride apiItemMetadata then [lit ''@override''] else [])
                  @ (if isEventProperty apiItemMetadata then [lit ''@eventProperty''] else [])
                  @ (case tsdocComment apiItemMetadata of
                       Some c \<Rightarrow> if deprecatedBlock c then [lit ''@deprecated''] else []
                     | None \<Rightarrow> [])
                  @ (if undocumented apiItemMetadata then [lit ''(undocumented)''] else []);
                st1 =
                  (if undocumented apiItemMetadata
                   then addAnalyzerIssue collector Undocumented
                          (lit ''Missing documentation for '' @ [DQUOTE] @ localName astDeclaration
                             @ [DQUOTE] @ lit ''.'')
                          astDeclaration st
                   else st);
                writer1 =
                  (if footerParts \<noteq> [] then
                     writeLineAsComments ext
                       (if messagesToReport \<noteq> [] then writeLineAsComments ext writer0 []
                        else writer0)
                       (joinStrings (lit '' '') footerParts)
                   else writer0)
            in (writerToString ext writer1, st1))
         else (writerToString ext writer0, st))"

section \<open>The rewrite policy\<close>

text \<open>
  \<open>_modifySpan\<close>.  A span of the source knows its parent and its previous sibling; here the
  kind of the parent and the previous sibling are arguments, and the previous sibling is
  returned because the rule for declaration keywords assigns its prefix.
\<close>

definition replaceModifiers :: "CollectorEntity \<Rightarrow> Span option \<Rightarrow> Span \<Rightarrow> Span option \<times> Span" where
  "replaceModifiers entity previousSpan span =
     (let replacedModifiers = (if shouldInlineExport entity then lit ''export '' else [])
      in case previousSpan of
           Some p \<Rightarrow>
             if kind p = SyntaxList
             then (Some (setPrefix (replacedModifiers @ getPrefix p) p), span)
             else (previousSpan, setPrefix (replacedModifiers @ getPrefix span) span)
         | None \<Rightarrow> (None, setPrefix (replacedModifiers @ getPrefix span) span))"

definition modifyVariableDeclaration ::
  "'r Extern \<Rightarrow> CollectorEntity \<Rightarrow> SyntaxKind option \<Rightarrow> Span \<Rightarrow> error + Span" where
  "modifyVariableDeclaration ext entity parentKind span =
     (if parentKind = None then
        (case matchAncestor ext (node span) [VariableDeclarationList, VariableDeclaration] of
           None \<Rightarrow> Inl (InternalError (lit ''Unsupported variable declaration''))
         | Some list \<Rightarrow>
             (case listDeclarations ext list of
                [] \<Rightarrow> Inl (TypeError (lit ''Cannot read properties of undefined''))
              | first # _ \<Rightarrow>
                  (let listPrefix = substring (sourceFileText ext list) (getStart list) (getStart first);
                       span1 = setPrefix (listPrefix @ getPrefix span) span;
                       span2 = setSuffix (lit '';'') span1
                   in Inr (if shouldInlineExport entity
                           then setPrefix (lit ''export '' @ getPrefix span2) span2
                           else span2))))
      else Inr span)"

definition modifyIdentifier :: "'r Collector \<Rightarrow> Span \<Rightarrow> error + Span" where
  "modifyIdentifier collector span =
     (case tryGetEntityForNode collector (node span) of
        Some referencedEntity \<Rightarrow>
          (case nameForEmit referencedEntity of
             None \<Rightarrow> Inl (InternalError (lit ''referencedEntry.nameForEmit is undefined''))
           | Some name \<Rightarrow>
               if name = [] then Inl (InternalError (lit ''referencedEntry.nameForEmit is undefined''))
               else Inr (setPrefix name span))
      | None \<Rightarrow> Inr span)"

text \<open>The \<open>switch (span.kind)\<close>.  Its outcome is the previous sibling, the span and the three
  locals \<open>recurseChildren\<close>, \<open>sortChildren\<close> and \<open>insideTypeLiteral\<close>.\<close>

definition modifySpanSwitch ::
  "'r Extern \<Rightarrow> 'r Collector \<Rightarrow> 'r ModifyNestedSpan \<Rightarrow> CollectorEntity \<Rightarrow> SyntaxKind option
     \<Rightarrow> Span option \<Rightarrow> Span \<Rightarrow> AstDeclaration \<Rightarrow> bool \<Rightarrow> 'r
     \<Rightarrow> (error + (Span option \<times> Span \<times> bool \<times> bool \<times> bool) \<times> 'r) option" where
  "modifySpanSwitch ext collector modifyNestedSpan entity parentKind previousSpan span
       astDeclaration insideTypeLiteral st =
     (if kind span = JSDocComment then
        Some (Inr ((previousSpan, mapModification skipAll span, False, False, insideTypeLiteral), st))
      else if kind span = ExportKeyword \<or> kind span = DefaultKeyword \<or> kind span = DeclareKeyword then
        Some (Inr ((previousSpan, mapModification skipAll span, True, False, insideTypeLiteral), st))
      else if kind span = InterfaceKeyword \<or> kind span = ClassKeyword \<or> kind span = EnumKeyword
              \<or> kind span = NamespaceKeyword \<or> kind span = ModuleKeyword
              \<or> kind span = TypeKeyword \<or> kind span = FunctionKeyword then
        (let (previousSpan1, span1) = replaceModifiers entity previousSpan span
         in Some (Inr ((previousSpan1, span1, True, False, insideTypeLiteral), st)))
      else if kind span = SyntaxList then
        Some (Inr ((previousSpan, span, True,
                    (case parentKind of
                       Some pk \<Rightarrow> isSupportedSyntaxKind ext pk \<or> pk = ModuleBlock
                     | None \<Rightarrow> False),
                    insideTypeLiteral), st))
      else if kind span = VariableDeclaration then
        (case modifyVariableDeclaration ext entity parentKind span of
           Inl e \<Rightarrow> Some (Inl e)
         | Inr span1 \<Rightarrow> Some (Inr ((previousSpan, span1, True, False, insideTypeLiteral), st)))
      else if kind span = Identifier then
        (case modifyIdentifier collector span of
           Inl e \<Rightarrow> Some (Inl e)
         | Inr span1 \<Rightarrow> Some (Inr ((previousSpan, span1, True, False, insideTypeLiteral), st)))
      else if kind span = TypeLiteral then
        Some (Inr ((previousSpan, span, True, False, True), st))
      else if kind span = ImportType then
        (case modifyImportTypeSpan ext collector modifyNestedSpan span astDeclaration st of
           None \<Rightarrow> None
         | Some (Inl e) \<Rightarrow> Some (Inl e)
         | Some (Inr (span1, st1)) \<Rightarrow>
             Some (Inr ((previousSpan, span1, True, False, insideTypeLiteral), st1)))
      else Some (Inr ((previousSpan, span, True, False, insideTypeLiteral), st)))"

text \<open>The body of the loop over \<open>span.children\<close> up to the recursive call: the declaration of
  the child, its sort key and its synopsis.  The first component is the overlay of the
  parent, on which \<open>sortChildren\<close> is set.\<close>

definition prepareChild ::
  "'r Extern \<Rightarrow> 'r Collector \<Rightarrow> ApiReportReleaseLevel \<Rightarrow> AstDeclaration \<Rightarrow> bool \<Rightarrow> bool
     \<Rightarrow> SpanModification \<Rightarrow> Span \<Rightarrow> 'r \<Rightarrow> error + SpanModification \<times> Span \<times> AstDeclaration \<times> 'r" where
  "prepareChild ext collector level astDeclaration insideTypeLiteral sortCh m child st =
     (if isSupportedSyntaxKind ext (kind child) then
        (case getChildAstDeclarationByNode collector (node child) astDeclaration of
           Inl e \<Rightarrow> Inl e
         | Inr childAstDeclaration \<Rightarrow>
             (case shouldIncludeInReport ext collector childAstDeclaration level of
                Inl e \<Rightarrow> Inl e
              | Inr False \<Rightarrow> Inr (m, child, childAstDeclaration, st)
              | Inr True \<Rightarrow>
                  (let m1 = (if sortCh then m\<lparr>sortChildren := True\<rparr> else m);
                       child1 =
                         (if sortCh
                          then setSortKey (getSortKeyIgnoringUnderscore ext (localName childAstDeclaration)) child
                          else child)
                   in if \<not> insideTypeLiteral then
                        (let (messagesToReport, st1) =
                               fetchAssociatedMessagesForReviewFile collector childAstDeclaration st;
                             (aedocSynopsis, st2) =
                               getAedocSynopsis ext collector childAstDeclaration messagesToReport st1
                         in Inr (m1, setPrefix (aedocSynopsis @ getPrefix child1) child1,
                                 childAstDeclaration, st2))
                      else Inr (m1, child1, childAstDeclaration, st))))
      else Inr (m, child, astDeclaration, st))"

text \<open>The loop over \<open>span.children\<close>.  \<open>modifyChild\<close> is the recursive call; \<open>processed\<close> holds the
  children already rewritten, the last of which is the previous sibling of the next child.\<close>

fun modifyChildren ::
  "'r Extern \<Rightarrow> 'r Collector \<Rightarrow> 'r ModifyNestedSpan \<Rightarrow> ApiReportReleaseLevel \<Rightarrow> SyntaxKind
     \<Rightarrow> AstDeclaration \<Rightarrow> bool \<Rightarrow> bool \<Rightarrow> SpanModification \<Rightarrow> Span list \<Rightarrow> Span list \<Rightarrow> 'r
     \<Rightarrow> (error + SpanModification \<times> Span list \<times> 'r) option" where
  "modifyChildren ext collector modifyChild level parentKind astDeclaration insideTypeLiteral
       sortCh m processed [] st = Some (Inr (m, processed, st))"
| "modifyChildren ext collector modifyChild level parentKind astDeclaration insideTypeLiteral
       sortCh m processed (child # rest) st =
     (case prepareChild ext collector level astDeclaration insideTypeLiteral sortCh m child st of
        Inl e \<Rightarrow> Some (Inl e)
      | Inr (m1, child1, childAstDeclaration, st1) \<Rightarrow>
          (case modifyChild (Some parentKind)
                  (if processed = [] then None else Some (last processed))
                  child1 childAstDeclaration st1 of
             None \<Rightarrow> None
           | Some (Inl e) \<Rightarrow> Some (Inl e)
           | Some (Inr (previousSpan1, child2, st2)) \<Rightarrow>
               modifyChildren ext collector modifyChild level parentKind astDeclaration
                 insideTypeLiteral sortCh m1
                 ((case previousSpan1 of
                     Some p \<Rightarrow> (if processed = [] then [] else butlast processed @ [p])
                   | None \<Rightarrow> processed) @ [child2])
                 rest st2))"

text \<open>
  \<open>_modifySpan\<close> itself.  The source recurses into the children and, through the callback of
  \<open>modifyImportTypeSpan\<close>, into whatever spans that helper chooses; the first argument bounds
  the depth of the recursion, and the result is \<open>None\<close> when the bound is reached.
\<close>

primrec modifySpan ::
  "nat \<Rightarrow> 'r Extern \<Rightarrow> 'r Collector \<Rightarrow> CollectorEntity \<Rightarrow> ApiReportReleaseLevel \<Rightarrow> bool
     \<Rightarrow> SyntaxKind option \<Rightarrow> Span option \<Rightarrow> Span \<Rightarrow> AstDeclaration \<Rightarrow> 'r \<Rightarrow> 'r ModifyResult" where
  "modifySpan 0 ext collector entity level insideTypeLiteral parentKind previousSpan span
       astDeclaration st = None"
| "modifySpan (Suc fuel) ext collector entity level insideTypeLiteral parentKind previousSpan span
       astDeclaration st =
     (case shouldIncludeInReport ext collector astDeclaration level of
        Inl e \<Rightarrow> Some (Inl e)
      | Inr False \<Rightarrow> Some (Inr (previousSpan, mapModification skipAll span, st))
      | Inr True \<Rightarrow>
          (case modifySpanSwitch ext collector
                  (modifySpan fuel ext collector entity level insideTypeLiteral)
                  entity parentKind previousSpan span astDeclaration insideTypeLiteral st of
             None \<Rightarrow> None
           | Some (Inl e) \<Rightarrow> Some (Inl e)
           | Some (Inr ((previousSpan1, span1, recurseChildren, sortCh, insideTypeLiteral1), st1)) \<Rightarrow>
               if recurseChildren then
                 (case modifyChildren ext collector
                         (modifySpan fuel ext collector entity level insideTypeLiteral1)
                         level (kind span1) astDeclaration insideTypeLiteral1 sortCh
                         (modification span1) [] (children span1) st1 of
                    None \<Rightarrow> None
                  | Some (Inl e) \<Rightarrow> Some (Inl e)
                  | Some (Inr (m, children1, st2)) \<Rightarrow>
                      Some (Inr (previousSpan1,
                                 setChildren children1 (mapModification (\<lambda>_. m) span1), st2)))
               else Some (Inr (previousSpan1, span1, st1))))"


section \<open>The report\<close>

text \<open>\<open>exportsToEmit\<close> is a \<open>Map\<close>, which keeps its keys in insertion order: an association list
  with the \<open>set\<close> of a \<open>Map\<close>.\<close>

type_synonym ExportsToEmit = "(jsstring \<times> IExportToEmit) list"

fun mapSet :: "'k \<Rightarrow> 'v \<Rightarrow> ('k \<times> 'v) list \<Rightarrow> ('k \<times> 'v) list" where
  "mapSet k v [] = [(k, v)]"
| "mapSet k v ((k', v') # rest) = (if k' = k then (k, v) # rest else (k', v') # mapSet k v rest)"

text \<open>The loop over \<open>entity.exportNames\<close>.\<close>

definition collectExportsToEmit :: "CollectorEntity \<Rightarrow> ExportsToEmit" where
  "collectExportsToEmit entity =
     foldl (\<lambda>exportsToEmit name.
              if \<not> shouldInlineExport entity
              then mapSet name \<lparr>exportName = name, associatedMessages = []\<rparr> exportsToEmit
              else exportsToEmit)
       [] (exportNames entity)"

text \<open>The loop over \<open>fetchedMessages\<close>: a message with an export name that has an entry in
  \<open>exportsToEmit\<close> is pushed to that entry, every other message to \<open>messagesToReport\<close>.\<close>

fun peelOffExportMessages ::
  "ExportsToEmit \<Rightarrow> ExtractorMessage list \<Rightarrow> ExtractorMessage list
     \<Rightarrow> ExportsToEmit \<times> ExtractorMessage list" where
  "peelOffExportMessages exportsToEmit messagesToReport [] = (exportsToEmit, messagesToReport)"
| "peelOffExportMessages exportsToEmit messagesToReport (message # rest) =
     (case properties_exportName message of
        Some name \<Rightarrow>
          if name \<noteq> [] then
            (case map_of exportsToEmit name of
               Some exportToEmit \<Rightarrow>
                 peelOffExportMessages
                   (mapSet name
                      (exportToEmit\<lparr>associatedMessages := associatedMessages exportToEmit @ [message]\<rparr>)
                      exportsToEmit)
                   messagesToReport rest
             | None \<Rightarrow> peelOffExportMessages exportsToEmit (messagesToReport @ [message]) rest)
          else peelOffExportMessages exportsToEmit (messagesToReport @ [message]) rest
      | None \<Rightarrow> peelOffExportMessages exportsToEmit (messagesToReport @ [message]) rest)"

text \<open>The body of the loop over the declarations of an \<open>AstSymbol\<close>.\<close>

definition emitDeclaration ::
  "nat \<Rightarrow> 'r Extern \<Rightarrow> 'r Collector \<Rightarrow> IApiReportOptions \<Rightarrow> CollectorEntity \<Rightarrow> AstDeclaration
     \<Rightarrow> ExportsToEmit \<Rightarrow> IndentedWriter \<Rightarrow> 'r
     \<Rightarrow> (error + ExportsToEmit \<times> IndentedWriter \<times> 'r) option" where
  "emitDeclaration fuel ext collector options entity astDeclaration exportsToEmit writer st =
     (let (fetchedMessages, st1) = fetchAssociatedMessagesForReviewFile collector astDeclaration st;
          (exportsToEmit1, messagesToReport) = peelOffExportMessages exportsToEmit [] fetchedMessages;
          (synopsis, st2) = getAedocSynopsis ext collector astDeclaration messagesToReport st1;
          writer1 = writer @ [EnsureSkippedLine, Write synopsis];
          span = newSpan (sourceFileText ext (declarationNode astDeclaration))
                   (declarationNode astDeclaration);
          apiItemMetadata = fetchApiItemMetadata collector astDeclaration
      in if isPreapproved apiItemMetadata then
           Some (Inr (exportsToEmit1,
                      writer1 @ [Write (writeModifiedText (modifySpanForPreapproved span)), EnsureNewLine],
                      st2))
         else
           (case modifySpan fuel ext collector entity (releaseLevel options) False None None span
                   astDeclaration st2 of
              None \<Rightarrow> None
            | Some (Inl e) \<Rightarrow> Some (Inl e)
            | Some (Inr (_, span1, st3)) \<Rightarrow>
                Some (Inr (exportsToEmit1,
                           writer1 @ [Write (writeModifiedText span1), EnsureNewLine], st3))))"

fun emitDeclarations ::
  "nat \<Rightarrow> 'r Extern \<Rightarrow> 'r Collector \<Rightarrow> IApiReportOptions \<Rightarrow> CollectorEntity \<Rightarrow> AstDeclaration list
     \<Rightarrow> ExportsToEmit \<Rightarrow> IndentedWriter \<Rightarrow> 'r
     \<Rightarrow> (error + ExportsToEmit \<times> IndentedWriter \<times> 'r) option" where
  "emitDeclarations fuel ext collector options entity [] exportsToEmit writer st =
     Some (Inr (exportsToEmit, writer, st))"
| "emitDeclarations fuel ext collector options entity (astDeclaration # rest) exportsToEmit writer st =
     (case emitDeclaration fuel ext collector options entity astDeclaration exportsToEmit writer st of
        None \<Rightarrow> None
      | Some (Inl e) \<Rightarrow> Some (Inl e)
      | Some (Inr (exportsToEmit1, writer1, st1)) \<Rightarrow>
          emitDeclarations fuel ext collector options entity rest exportsToEmit1 writer1 st1)"

text \<open>The export clauses of a synthetic namespace; \<open>nameForEmit\<close> of a template literal is the
  text \<open>undefined\<close> when it is absent.\<close>

definition nameOrUndefined :: "jsstring option \<Rightarrow> jsstring" where
  "nameOrUndefined n = (case n of Some s \<Rightarrow> s | None \<Rightarrow> lit ''undefined'')"

fun exportClausesOf ::
  "'r Collector \<Rightarrow> jsstring \<Rightarrow> (jsstring \<times> AstEntity) list \<Rightarrow> error + jsstring list" where
  "exportClausesOf collector namespaceName [] = Inr []"
| "exportClausesOf collector namespaceName ((exportedName, exportedEntity) # rest) =
     (case tryGetCollectorEntity collector exportedEntity of
        None \<Rightarrow>
          Inl (InternalError (lit ''Cannot find collector entity for '' @ namespaceName @ lit ''.''
                                @ entityLocalName exportedEntity))
      | Some collectorEntity \<Rightarrow>
          (case exportClausesOf collector namespaceName rest of
             Inl e \<Rightarrow> Inl e
           | Inr clauses \<Rightarrow>
               Inr ((if nameForEmit collectorEntity = Some exportedName then exportedName
                     else nameOrUndefined (nameForEmit collectorEntity) @ lit '' as '' @ exportedName)
                    # clauses)))"

text \<open>The branch for an \<open>AstNamespaceImport\<close>.\<close>

definition emitNamespaceImport ::
  "'r Extern \<Rightarrow> 'r Collector \<Rightarrow> CollectorEntity \<Rightarrow> AstEntity \<Rightarrow> IndentedWriter \<Rightarrow> error + IndentedWriter" where
  "emitNamespaceImport ext collector entity astEntity0 writer =
     (let astModuleExportInfo = fetchAstModuleExportInfo collector astEntity0
      in case nameForEmit entity of
           None \<Rightarrow> Inl (InternalError (lit ''referencedEntry.nameForEmit is undefined''))
         | Some name \<Rightarrow>
             if length (starExportedExternalModules astModuleExportInfo) > 0 then
               Inl (Error (lit ''The '' @ name
                             @ lit '' namespace import includes a star export, which is not supported:''
                             @ [LF] @ formatDeclaration ext (namespaceDeclaration astEntity0)))
             else
               (case exportClausesOf collector name (exportedLocalEntities astModuleExportInfo) of
                  Inl e \<Rightarrow> Inl e
                | Inr exportClauses \<Rightarrow>
                    Inr (writer @
                         [EnsureSkippedLine,
                          WriteLine (lit ''declare namespace '' @ name @ lit '' {''),
                          IncreaseIndent,
                          WriteLine (lit ''export {''),
                          IncreaseIndent,
                          WriteLine (joinStrings (lit '','' @ [LF]) exportClauses),
                          DecreaseIndent,
                          WriteLine (lit ''}''),
                          DecreaseIndent,
                          WriteLine (lit ''}'')])))"

text \<open>The loop over \<open>exportsToEmit.values()\<close>.\<close>

definition emitExports ::
  "'r Extern \<Rightarrow> CollectorEntity \<Rightarrow> IExportToEmit list \<Rightarrow> IndentedWriter \<Rightarrow> IndentedWriter" where
  "emitExports ext entity exports writer =
     foldl (\<lambda>w exportToEmit.
              (if length (associatedMessages exportToEmit) > 0 then
                 foldl (\<lambda>w1 message.
                          writeLineAsComments ext w1
                            (lit ''Warning: '' @ formatMessageWithoutLocation ext message))
                   (w @ [EnsureSkippedLine]) (associatedMessages exportToEmit)
               else w)
              @ [EmitNamedExport (exportName exportToEmit) entity])
       writer exports"

fun isAstSymbol :: "AstEntity \<Rightarrow> bool" where
  "isAstSymbol (AstSymbol _ _) = True"
| "isAstSymbol _ = False"

fun isAstImport :: "AstEntity \<Rightarrow> bool" where
  "isAstImport (AstImport _) = True"
| "isAstImport _ = False"

fun isAstNamespaceImport :: "AstEntity \<Rightarrow> bool" where
  "isAstNamespaceImport (AstNamespaceImport _ _) = True"
| "isAstNamespaceImport _ = False"

text \<open>The body of the loop "Emit the regular declarations".\<close>

definition emitEntity ::
  "nat \<Rightarrow> 'r Extern \<Rightarrow> 'r Collector \<Rightarrow> IApiReportOptions \<Rightarrow> CollectorEntity \<Rightarrow> IndentedWriter \<Rightarrow> 'r
     \<Rightarrow> (error + IndentedWriter \<times> 'r) option" where
  "emitEntity fuel ext collector options entity writer st =
     (if consumable entity \<or> apiReportIncludeForgottenExports collector then
        (case (if isAstSymbol (astEntity entity)
               then emitDeclarations fuel ext collector options entity
                      (astDeclarations (astEntity entity)) (collectExportsToEmit entity) writer st
               else Some (Inr (collectExportsToEmit entity, writer, st))) of
           None \<Rightarrow> None
         | Some (Inl e) \<Rightarrow> Some (Inl e)
         | Some (Inr (exportsToEmit, writer1, st1)) \<Rightarrow>
             (case (if isAstNamespaceImport (astEntity entity)
                    then emitNamespaceImport ext collector entity (astEntity entity) writer1
                    else Inr writer1) of
                Inl e \<Rightarrow> Some (Inl e)
              | Inr writer2 \<Rightarrow>
                  Some (Inr (emitExports ext entity (map snd exportsToEmit) writer2
                               @ [EnsureSkippedLine], st1))))
      else Some (Inr (writer, st)))"

fun emitEntities ::
  "nat \<Rightarrow> 'r Extern \<Rightarrow> 'r Collector \<Rightarrow> IApiReportOptions \<Rightarrow> CollectorEntity list \<Rightarrow> IndentedWriter \<Rightarrow> 'r
     \<Rightarrow> (error + IndentedWriter \<times> 'r) option" where
  "emitEntities fuel ext collector options [] writer st = Some (Inr (writer, st))"
| "emitEntities fuel ext collector options (entity # rest) writer st =
     (case emitEntity fuel ext collector options entity writer st of
        None \<Rightarrow> None
      | Some (Inl e) \<Rightarrow> Some (Inl e)
      | Some (Inr (writer1, st1)) \<Rightarrow> emitEntities fuel ext collector options rest writer1 st1)"

text \<open>What is written before the declarations: the header, the code fence, the directives
  and the imports.\<close>

definition reportHead :: "'r Collector \<Rightarrow> IndentedWriter" where
  "reportHead collector =
     [SetTrimLeadingSpaces True,
      WriteLine (joinStrings [LF]
        [lit ''## API Report File for '' @ [DQUOTE] @ workingPackage_name collector @ [DQUOTE],
         [],
         lit ''> Do not edit this file. It is a report generated by [API Extractor](https://api-extractor.com/).'',
         []]),
      WriteLine (lit ''```ts'' @ [LF])]
     @ map (\<lambda>typeDirectiveReference.
              WriteLine (lit ''/// <reference types='' @ [DQUOTE] @ typeDirectiveReference @ [DQUOTE] @ lit '' />''))
         (sort (dtsTypeReferenceDirectives collector))
     @ map (\<lambda>libDirectiveReference.
              WriteLine (lit ''/// <reference lib='' @ [DQUOTE] @ libDirectiveReference @ [DQUOTE] @ lit '' />''))
         (sort (dtsLibReferenceDirectives collector))
     @ [EnsureSkippedLine]
     @ map (\<lambda>entity. EmitImport entity (astEntity entity))
         (filter (\<lambda>entity. isAstImport (astEntity entity)) (entities collector))
     @ [EnsureSkippedLine]"

text \<open>What is written after the declarations: the star exports, the unassociated warnings,
  the note on a missing package comment and the closing fence.\<close>

definition reportTail :: "'r Extern \<Rightarrow> 'r Collector \<Rightarrow> IndentedWriter \<Rightarrow> 'r \<Rightarrow> IndentedWriter \<times> 'r" where
  "reportTail ext collector writer st =
     (let writer1 = writer @ [EmitStarExports];
          (unassociatedMessages, st1) = fetchUnassociatedMessagesForReviewFile collector st;
          writer2 =
            (if length unassociatedMessages > 0 then
               foldl (\<lambda>w unassociatedMessage.
                        writeLineAsComments ext w
                          (formatMessageWithLocation ext unassociatedMessage
                             (workingPackage_packageFolder collector)))
                 (writeLineAsComments ext
                    (writeLineAsComments ext (writer1 @ [EnsureSkippedLine])
                       (lit ''Warnings were encountered during analysis:''))
                    [])
                 unassociatedMessages
             else writer1);
          writer3 =
            (if workingPackage_tsdocComment collector = None then
               writeLineAsComments ext (writer2 @ [EnsureSkippedLine])
                 (lit ''(No @packageDocumentation comment for this package)'')
             else writer2)
      in (writer3 @ [EnsureSkippedLine, WriteLine (lit ''```'')], st1))"

text \<open>\<open>generateReviewFileContent\<close>: the report and the final state of the message router.  The
  last step removes the trailing spaces of the writer's text.\<close>

definition generateReviewFileContent ::
  "nat \<Rightarrow> 'r Extern \<Rightarrow> 'r Collector \<Rightarrow> IApiReportOptions \<Rightarrow> 'r \<Rightarrow> (error + jsstring \<times> 'r) option" where
  "generateReviewFileContent fuel ext collector options st =
     (case emitEntities fuel ext collector options (entities collector) (reportHead collector) st of
        None \<Rightarrow> None
      | Some (Inl e) \<Rightarrow> Some (Inl e)
      | Some (Inr (writer, st1)) \<Rightarrow>
          (let (writer1, st2) = reportTail ext collector writer st1
           in Some (Inr (trimSpaces (writerToString ext writer1), st2))))"



section \<open>Notions used by the statements\<close>

text \<open>The effective release tag of a declaration, an unspecified tag counting as public.\<close>

definition effectiveTag :: "'r Collector \<Rightarrow> AstDeclaration \<Rightarrow> ReleaseTag" where
  "effectiveTag collector D =
     (case effectiveReleaseTag (fetchApiItemMetadata collector D) of
        ReleaseTag_None \<Rightarrow> ReleaseTag_Public | t \<Rightarrow> t)"

definition hasPrivateModifier :: "'r Extern \<Rightarrow> AstDeclaration \<Rightarrow> bool" where
  "hasPrivateModifier ext D \<longleftrightarrow> (modifierFlags D AND ModifierFlags_Private ext) \<noteq> 0"

definition recognizedLevel :: "ApiReportReleaseLevel \<Rightarrow> bool" where
  "recognizedLevel T \<longleftrightarrow> T = Untrimmed \<or> T = Alpha \<or> T = Beta \<or> T = Public"

text \<open>No space stands at the end of the text or before a line terminator.\<close>

fun noSpaceBeforeEol :: "jsstring \<Rightarrow> bool" where
  "noSpaceBeforeEol [] = True"
| "noSpaceBeforeEol (c # cs) =
     ((c \<noteq> SPACE \<or> (cs \<noteq> [] \<and> \<not> isLineTerminator (hd cs))) \<and> noSpaceBeforeEol cs)"

text \<open>The report of a run of the generator, if it produced one.\<close>

definition reportOf :: "(error + jsstring \<times> 'r) option \<Rightarrow> jsstring option" where
  "reportOf r = (case r of Some (Inr (report, _)) \<Rightarrow> Some report | _ \<Rightarrow> None)"

text \<open>The message of the error for a namespace import with a star export.\<close>

definition starExportMessage :: "'r Extern \<Rightarrow> jsstring \<Rightarrow> Node \<Rightarrow> jsstring" where
  "starExportMessage ext name decl =
     lit ''The '' @ name @ lit '' namespace import includes a star export, which is not supported:''
       @ [LF] @ formatDeclaration ext decl"


text \<open>What the policy for preapproved declarations does to a child: before the first
  identifier, to the first identifier, and after it.\<close>

definition skipLists :: "Span \<Rightarrow> Span" where
  "skipLists c =
     (if kind c = SyntaxList \<or> kind c = JSDocComment then mapModification skipAll c else c)"

definition markIdentifier :: "Span \<Rightarrow> Span" where
  "markIdentifier c = setSuffix preapprovedSuffix (setOmitSeparatorAfter True c)"

definition skipFollowing :: "Span \<Rightarrow> Span" where
  "skipFollowing c =
     (if kind c = Identifier then markIdentifier (mapModification skipAll c)
      else mapModification skipAll c)"

text \<open>The end of the last node of a list, or the given position for the empty list.\<close>

fun lastEnd :: "nat \<Rightarrow> Node list \<Rightarrow> nat" where
  "lastEnd lo [] = lo"
| "lastEnd lo (c # cs) = lastEnd (nodeEnd c) cs"

section \<open>A small collector for the concrete instances\<close>

definition exampleNode :: Node where
  "exampleNode = Node (OtherKind 0) 0 11 []"

definition exampleEntity :: "AstEntity \<Rightarrow> bool \<Rightarrow> bool \<Rightarrow> jsstring \<Rightarrow> CollectorEntity" where
  "exampleEntity e cons inline name =
     \<lparr>astEntity = e, consumable = cons, exportNames = [name], shouldInlineExport = inline,
      nameForEmit = Some name\<rparr>"

text \<open>The declaration \<open>export class A { }\<close> at offset 7 of its file.\<close>

definition classSource :: jsstring where
  "classSource = lit ''/* */  export class A { } // x''"

definition classNode :: Node where
  "classNode =
     Node (OtherKind 263) 7 25
       [Node SyntaxList 7 13 [Node ExportKeyword 7 13 []], Node ClassKeyword 14 19 [],
        Node Identifier 20 21 [], Node (OtherKind 19) 22 23 [], Node SyntaxList 23 23 [],
        Node (OtherKind 20) 24 25 []]"

text \<open>A declaration whose first line ends with a tab.\<close>

definition tabbedSource :: jsstring where
  "tabbedSource = lit ''class A {'' @ [TAB, LF] @ lit ''}''"

definition exampleSpan :: "SyntaxKind \<Rightarrow> jsstring \<Rightarrow> Span list \<Rightarrow> Span" where
  "exampleSpan k own cs = Span k (Node k 0 0 []) own [] [] defaultModification cs"

fun simpleToString :: "IndentedWriter \<Rightarrow> jsstring" where
  "simpleToString [] = []"
| "simpleToString (Write s # w) = s @ simpleToString w"
| "simpleToString (WriteLine s # w) = s @ [LF] @ simpleToString w"
| "simpleToString (_ # w) = simpleToString w"

definition exampleExternFor :: "jsstring \<Rightarrow> unit Extern" where
  "exampleExternFor src =
     \<lparr>ModifierFlags_Private = 8,
      sourceFileText = (\<lambda>n. src),
      listDeclarations = (\<lambda>n. []),
      matchAncestor = (\<lambda>n ks. None),
      isSupportedSyntaxKind = (\<lambda>k. False),
      getSortKeyIgnoringUnderscore = (\<lambda>s. s),
      modifyImportTypeSpan = (\<lambda>c cb span d st. Some (Inr (span, st))),
      writerToString = simpleToString,
      convertToLf = (\<lambda>s. s),
      getTagName = (\<lambda>t. lit ''@tag''),
      formatDeclaration = (\<lambda>n. lit ''index.d.ts:1:1''),
      formatMessageWithoutLocation = messageText,
      formatMessageWithLocation = (\<lambda>m folder. messageText m)\<rparr>"

definition exampleExtern :: "unit Extern" where
  "exampleExtern = exampleExternFor (lit ''class A { }'')"

definition exampleMetadata :: "ReleaseTag \<Rightarrow> bool \<Rightarrow> ApiItemMetadata" where
  "exampleMetadata t pre =
     \<lparr>effectiveReleaseTag = t, releaseTagSameAsParent = False, isPreapproved = pre,
      isSealed = False, isVirtual = False, isOverride = False, isEventProperty = False,
      tsdocComment = None, undocumented = False\<rparr>"

definition exampleDeclaration :: "int \<Rightarrow> jsstring \<Rightarrow> AstDeclaration" where
  "exampleDeclaration flags name =
     \<lparr>declarationNode = exampleNode, modifierFlags = flags, localName = name\<rparr>"

text \<open>A collector that tags a declaration by its name: \<open>a\<close>, \<open>b\<close>, \<open>i\<close> and \<open>p\<close> are alpha, beta,
  internal and public, \<open>q\<close> is preapproved, every other declaration has no tag.  It resolves
  the identifier at offset 20 to an entity emitted as \<open>Widget\<close>, and the module of the
  namespace \<open>ns\<close> has a star export.\<close>

definition exampleCollector :: "CollectorEntity list \<Rightarrow> unit Collector" where
  "exampleCollector es =
     \<lparr>workingPackage_name = lit ''pkg'',
      workingPackage_packageFolder = lit ''/pkg'',
      workingPackage_tsdocComment = Some (DocComment False),
      dtsTypeReferenceDirectives = [],
      dtsLibReferenceDirectives = [],
      entities = es,
      apiReportIncludeForgottenExports = False,
      fetchApiItemMetadata = (\<lambda>d. exampleMetadata
         (if localName d = lit ''b'' then ReleaseTag_Beta
          else if localName d = lit ''a'' then ReleaseTag_Alpha
          else if localName d = lit ''i'' then ReleaseTag_Internal
          else if localName d = lit ''p'' then ReleaseTag_Public else ReleaseTag_None)
         (localName d = lit ''q'')),
      isAncillaryDeclaration = (\<lambda>d. False),
      tryGetEntityForNode =
        (\<lambda>n. if nodeKind n = Identifier \<and> getStart n = 20
              then Some (exampleEntity (AstImport (lit ''W'')) True False (lit ''Widget''))
              else None),
      tryGetCollectorEntity = (\<lambda>e. None),
      getChildAstDeclarationByNode = (\<lambda>n d. Inr d),
      fetchAstModuleExportInfo =
        (\<lambda>e. \<lparr>exportedLocalEntities = [],
              starExportedExternalModules =
                (if entityLocalName e = lit ''ns'' then [lit ''external-pkg''] else [])\<rparr>),
      fetchAssociatedMessagesForReviewFile = (\<lambda>d st. ([], st)),
      fetchUnassociatedMessagesForReviewFile = (\<lambda>st. ([], st)),
      addAnalyzerIssue = (\<lambda>i t d st. st)\<rparr>"

section \<open>Whitespace-insensitive comparison: properties\<close>

lemma collapseRuns_True: "collapseRuns True s = collapseRuns False (dropWhile isWhiteSpace s)"
  by (induction s) auto

lemma replace_is_collapse: "replaceWhitespaceRuns s = collapseRuns False s"
  by (induction s rule: replaceWhitespaceRuns.induct) (auto simp: collapseRuns_True)

lemma whitespace_chars: "isWhiteSpace CR" "isWhiteSpace LF" "isWhiteSpace SPACE" "isWhiteSpace TAB"
  by (simp_all add: isWhiteSpace_def CR_def LF_def SPACE_def TAB_def)

lemma collapseRuns_toCrLf: "collapseRuns b (toCrLf s) = collapseRuns b s"
  by (induction s arbitrary: b) (auto simp: whitespace_chars)

lemma collapseRuns_append:
  "collapseRuns b (x @ y) =
     collapseRuns b x @ collapseRuns (if x = [] then b else isWhiteSpace (last x)) y"
  by (induction x arbitrary: b) auto

lemma collapseRuns_whitespace:
  "w \<noteq> [] \<Longrightarrow> \<forall>c\<in>set w. isWhiteSpace c \<Longrightarrow> collapseRuns b w = (if b then [] else [SPACE])"
  by (induction w arbitrary: b) (auto, (case_tac w; simp)+)

lemma filter_collapseRuns:
  "filter (\<lambda>c. \<not> isWhiteSpace c) (collapseRuns b s) = filter (\<lambda>c. \<not> isWhiteSpace c) s"
  by (induction s arbitrary: b) (auto simp: whitespace_chars)

lemma equivalent_whitespace_runs:
  assumes "w1 \<noteq> []" "w2 \<noteq> []" "\<forall>c\<in>set w1. isWhiteSpace c" "\<forall>c\<in>set w2. isWhiteSpace c"
  shows "collapseRuns False (x @ w1 @ y) = collapseRuns False (x @ w2 @ y)"
proof -
  have "collapseRuns b (w1 @ y) = collapseRuns b (w2 @ y)" for b
    using assms by (simp add: collapseRuns_append collapseRuns_whitespace)
  then show ?thesis by (simp add: collapseRuns_append)
qed

lemma different_tokens:
  assumes "\<forall>c\<in>set t1. \<not> isWhiteSpace c" "\<forall>c\<in>set t2. \<not> isWhiteSpace c" "t1 \<noteq> t2"
  shows "collapseRuns False (x @ t1 @ y) \<noteq> collapseRuns False (x @ t2 @ y)"
proof
  assume "collapseRuns False (x @ t1 @ y) = collapseRuns False (x @ t2 @ y)"
  then have "filter (\<lambda>c. \<not> isWhiteSpace c) (collapseRuns False (x @ t1 @ y))
           = filter (\<lambda>c. \<not> isWhiteSpace c) (collapseRuns False (x @ t2 @ y))" by simp
  then have "filter (\<lambda>c. \<not> isWhiteSpace c) (x @ t1 @ y) = filter (\<lambda>c. \<not> isWhiteSpace c) (x @ t2 @ y)"
    by (simp only: filter_collapseRuns)
  moreover have "filter (\<lambda>c. \<not> isWhiteSpace c) t1 = t1" "filter (\<lambda>c. \<not> isWhiteSpace c) t2 = t2"
    using assms(1,2) by (simp_all add: filter_id_conv)
  ultimately have "t1 = t2" by simp
  with assms(3) show False by simp
qed

text \<open>
  Claim C3.  \<open>areEquivalentApiFileContents\<close> holds of two documents exactly when they are
  equal after every maximal run of whitespace has been replaced by one space.  Hence a
  document is equivalent to its CRLF form; two documents that differ in one place by two
  non-empty runs of whitespace (a line feed against several: blank lines inserted or
  removed) are equivalent; and two documents that differ in one place by two different
  tokens free of whitespace are not equivalent.
\<close>

theorem areEquivalentApiFileContents_collapse:
  "(areEquivalentApiFileContents a b \<longleftrightarrow> collapseWhitespace a = collapseWhitespace b) \<and>
   areEquivalentApiFileContents (toCrLf a) a \<and>
   (w1 \<noteq> [] \<and> w2 \<noteq> [] \<and> (\<forall>c\<in>set w1. isWhiteSpace c) \<and> (\<forall>c\<in>set w2. isWhiteSpace c) \<longrightarrow>
      areEquivalentApiFileContents (x @ w1 @ y) (x @ w2 @ y)) \<and>
   ((\<forall>c\<in>set t1. \<not> isWhiteSpace c) \<and> (\<forall>c\<in>set t2. \<not> isWhiteSpace c) \<and> t1 \<noteq> t2 \<longrightarrow>
      \<not> areEquivalentApiFileContents (u @ t1 @ v) (u @ t2 @ v))"
  using equivalent_whitespace_runs[of w1 w2 x y] different_tokens[of t1 t2 u v]
  by (simp add: areEquivalentApiFileContents_def collapseWhitespace_def replace_is_collapse
        collapseRuns_toCrLf)

theorem areEquivalentApiFileContents_collapse_witness:
  "areEquivalentApiFileContents (lit ''a'' @ [LF] @ lit ''b'') (lit ''a'' @ [LF, LF] @ lit ''b'') \<and>
   areEquivalentApiFileContents (lit ''a'' @ [CR, LF] @ lit ''b'') (lit ''a'' @ [LF] @ lit ''b'') \<and>
   \<not> areEquivalentApiFileContents (lit ''x '' @ lit ''foo'' @ lit '';'') (lit ''x '' @ lit ''bar'' @ lit '';'')"
  using areEquivalentApiFileContents_collapse
          [where ?w1.0 = "[LF]" and ?w2.0 = "[LF, LF]" and x = "lit ''a''" and y = "lit ''b''"
             and ?t1.0 = "lit ''foo''" and ?t2.0 = "lit ''bar''" and u = "lit ''x ''" and v = "lit '';''"
             and a = "lit ''a'' @ [LF] @ lit ''b''" and b = "lit ''a'' @ [LF, LF] @ lit ''b''"]
  by (simp add: whitespace_chars lit_def isWhiteSpace_def LF_def CR_def collapseWhitespace_def
        SPACE_def)

section \<open>The inclusion predicate: properties\<close>

lemma levels_distinct:
  "Untrimmed \<noteq> Alpha" "Untrimmed \<noteq> Beta" "Untrimmed \<noteq> Public" "Alpha \<noteq> Beta"
  "Alpha \<noteq> Public" "Beta \<noteq> Public" "Alpha \<noteq> Untrimmed" "Beta \<noteq> Untrimmed"
  "Public \<noteq> Untrimmed" "Beta \<noteq> Alpha" "Public \<noteq> Alpha" "Public \<noteq> Beta"
  by (simp_all add: Untrimmed_def Alpha_def Beta_def Public_def)

lemma include_private:
  "hasPrivateModifier ext D \<Longrightarrow> shouldIncludeInReport ext collector D T = Inr False"
  by (simp add: shouldIncludeInReport_def hasPrivateModifier_def)

lemma include_nonprivate:
  assumes "\<not> hasPrivateModifier ext D"
  shows "shouldIncludeInReport ext collector D Untrimmed = Inr True"
    and "shouldIncludeInReport ext collector D Alpha =
           Inr (tagValue (effectiveTag collector D) \<ge> tagValue ReleaseTag_Alpha)"
    and "shouldIncludeInReport ext collector D Beta =
           Inr (tagValue (effectiveTag collector D) \<ge> tagValue ReleaseTag_Beta)"
    and "shouldIncludeInReport ext collector D Public =
           Inr (effectiveTag collector D = ReleaseTag_Public)"
    and "\<not> recognizedLevel T \<Longrightarrow>
           shouldIncludeInReport ext collector D T =
             Inl (Error (lit ''Unrecognized release level: '' @ numberToString T))"
  using assms
  by (auto simp: shouldIncludeInReport_def hasPrivateModifier_def effectiveTag_def
        levels_distinct Let_def recognizedLevel_def split: ReleaseTag.splits)

lemma exampleDeclaration_simps:
  "modifierFlags (exampleDeclaration f n) = f"
  "localName (exampleDeclaration f n) = n"
  "declarationNode (exampleDeclaration f n) = exampleNode"
  by (simp_all add: exampleDeclaration_def)

lemma exampleExtern_Private: "ModifierFlags_Private exampleExtern = 8"
  by (simp add: exampleExtern_def exampleExternFor_def)

lemma exampleCollector_tag:
  "effectiveReleaseTag (fetchApiItemMetadata (exampleCollector es) (exampleDeclaration f n)) =
     (if n = lit ''b'' then ReleaseTag_Beta
      else if n = lit ''a'' then ReleaseTag_Alpha
      else if n = lit ''i'' then ReleaseTag_Internal
      else if n = lit ''p'' then ReleaseTag_Public else ReleaseTag_None)"
  by (simp add: exampleCollector_def exampleDeclaration_def exampleMetadata_def)

text \<open>
  Claim C2.  A declaration with the private modifier is excluded at every threshold, the
  unrecognized ones included.  Any other declaration is included at Untrimmed; at Alpha
  exactly when its effective tag is at least alpha; at Beta exactly when it is at least
  beta; at Public exactly when it is public, so that a beta declaration is excluded there.
\<close>

theorem shouldIncludeInReport_rule:
  "(hasPrivateModifier ext D \<longrightarrow> shouldIncludeInReport ext collector D T = Inr False) \<and>
   (\<not> hasPrivateModifier ext D \<longrightarrow>
      shouldIncludeInReport ext collector D Untrimmed = Inr True \<and>
      shouldIncludeInReport ext collector D Alpha =
        Inr (tagValue (effectiveTag collector D) \<ge> tagValue ReleaseTag_Alpha) \<and>
      shouldIncludeInReport ext collector D Beta =
        Inr (tagValue (effectiveTag collector D) \<ge> tagValue ReleaseTag_Beta) \<and>
      shouldIncludeInReport ext collector D Public =
        Inr (effectiveTag collector D = ReleaseTag_Public) \<and>
      (effectiveTag collector D = ReleaseTag_Beta \<longrightarrow>
         shouldIncludeInReport ext collector D Public = Inr False))"
  using include_private[of ext D collector T] include_nonprivate(1-4)[of ext D collector]
  by simp

theorem shouldIncludeInReport_rule_witness:
  "shouldIncludeInReport exampleExtern (exampleCollector []) (exampleDeclaration 8 (lit ''p'')) Untrimmed
     = Inr False \<and>
   shouldIncludeInReport exampleExtern (exampleCollector []) (exampleDeclaration 0 (lit ''b'')) Public
     = Inr False \<and>
   shouldIncludeInReport exampleExtern (exampleCollector []) (exampleDeclaration 0 (lit ''b'')) Beta
     = Inr True \<and>
   shouldIncludeInReport exampleExtern (exampleCollector []) (exampleDeclaration 0 (lit ''x'')) Public
     = Inr True"
  using shouldIncludeInReport_rule
          [of exampleExtern "exampleDeclaration 8 (lit ''p'')" "exampleCollector []" Untrimmed]
        shouldIncludeInReport_rule
          [of exampleExtern "exampleDeclaration 0 (lit ''b'')" "exampleCollector []" Untrimmed]
        shouldIncludeInReport_rule
          [of exampleExtern "exampleDeclaration 0 (lit ''x'')" "exampleCollector []" Untrimmed]
  by (simp add: hasPrivateModifier_def exampleExtern_Private effectiveTag_def exampleCollector_tag
        lit_def exampleDeclaration_simps)

text \<open>
  Claim C4.  Inclusion is monotone in the threshold: for recognized thresholds
  \<open>T1 \<le> T2\<close> (untrimmed < alpha < beta < public), a declaration included at \<open>T2\<close> is
  included at \<open>T1\<close>.  At the public boundary inclusion is exact equality of the tag with
  public, and a public declaration is included at every lower threshold, so the
  implication holds there as well.
\<close>

theorem shouldIncludeInReport_monotone:
  assumes "recognizedLevel T1" "recognizedLevel T2" "T1 \<le> T2"
    and "shouldIncludeInReport ext collector D T2 = Inr True"
  shows "shouldIncludeInReport ext collector D T1 = Inr True \<and>
         (T2 = Public \<longrightarrow> effectiveTag collector D = ReleaseTag_Public)"
proof (cases "hasPrivateModifier ext D")
  case True
  with assms(4) include_private[of ext D collector T2] show ?thesis by simp
next
  case False
  note np = include_nonprivate(1-4)[OF False, of collector]
  from assms(1-3) consider "T1 = Untrimmed" | "T1 = Alpha" "T2 = Alpha \<or> T2 = Beta \<or> T2 = Public"
    | "T1 = Beta" "T2 = Beta \<or> T2 = Public" | "T1 = Public" "T2 = Public"
    by (auto simp: recognizedLevel_def Untrimmed_def Alpha_def Beta_def Public_def)
  then show ?thesis
  proof cases
    case 1 with np assms(4) show ?thesis by auto
  next
    case 2 with np assms(4) show ?thesis by (cases "effectiveTag collector D") auto
  next
    case 3 with np assms(4) show ?thesis by (cases "effectiveTag collector D") auto
  next
    case 4 with np assms(4) show ?thesis by simp
  qed
qed

theorem shouldIncludeInReport_monotone_witness:
  "recognizedLevel Alpha \<and> recognizedLevel Public \<and> Alpha \<le> Public \<and>
   shouldIncludeInReport exampleExtern (exampleCollector []) (exampleDeclaration 0 (lit ''p'')) Public
     = Inr True \<and>
   shouldIncludeInReport exampleExtern (exampleCollector []) (exampleDeclaration 0 (lit ''p'')) Alpha
     = Inr True"
proof -
  have 1: "recognizedLevel Alpha" "recognizedLevel Public" "Alpha \<le> Public"
    by (simp_all add: recognizedLevel_def Alpha_def Public_def)
  have 2: "shouldIncludeInReport exampleExtern (exampleCollector [])
             (exampleDeclaration 0 (lit ''p'')) Public = Inr True"
    by (simp add: shouldIncludeInReport_def exampleExtern_Private exampleCollector_tag lit_def
          exampleDeclaration_simps levels_distinct)
  from shouldIncludeInReport_monotone[OF 1 2] 1 2 show ?thesis by simp
qed




section \<open>Spans: auxiliary facts\<close>

lemma span_sel_mapModification[simp]:
  "kind (mapModification f s) = kind s" "node (mapModification f s) = node s"
  "spanPrefix (mapModification f s) = spanPrefix s" "spanSuffix (mapModification f s) = spanSuffix s"
  "separator (mapModification f s) = separator s" "children (mapModification f s) = children s"
  "modification (mapModification f s) = f (modification s)"
  by (cases s; simp)+

lemma span_sel_setChildren[simp]:
  "kind (setChildren cs s) = kind s" "node (setChildren cs s) = node s"
  "spanPrefix (setChildren cs s) = spanPrefix s" "spanSuffix (setChildren cs s) = spanSuffix s"
  "separator (setChildren cs s) = separator s" "children (setChildren cs s) = cs"
  "modification (setChildren cs s) = modification s"
  by (cases s; simp)+

lemma span_rebuild: "setChildren (children s) (mapModification (\<lambda>_. modification s) s) = s"
  by (cases s) simp

section \<open>The span writer: identity\<close>

lemma substring_le: "a \<le> b \<Longrightarrow> substring t a b = take (b - a) (drop a t)"
  by (auto simp: substring_def Let_def min_def max_def)

lemma substring_append: "a \<le> b \<Longrightarrow> b \<le> c \<Longrightarrow> substring t a b @ substring t b c = substring t a c"
proof -
  assume ab: "a \<le> b" and bc: "b \<le> c"
  have "take (b - a) (drop a t) @ take (c - b) (drop b t) = take (c - a) (drop a t)"
  proof -
    have "drop b t = drop (b - a) (drop a t)" using ab by simp
    then have "take (b - a) (drop a t) @ take (c - b) (drop b t)
        = take (b - a) (drop a t) @ take (c - b) (drop (b - a) (drop a t))" by simp
    also have "\<dots> = take ((b - a) + (c - b)) (drop a t)" by (simp only: take_add)
    finally show ?thesis using ab bc by simp
  qed
  with ab bc show ?thesis by (simp add: substring_le)
qed

lemma substring_same: "substring t a a = []"
  by (simp add: substring_def Let_def)

lemma Span_new_sel:
  "separator (Span_new text sepEnd n) = substring text (nodeEnd n) sepEnd"
  "modification (Span_new text sepEnd n) = defaultModification"
  by (cases n; simp)+

lemma rangesOrdered_lastEnd: "rangesOrdered lo hi cs \<Longrightarrow> lo \<le> lastEnd lo cs \<and> lastEnd lo cs \<le> hi"
  by (induction cs arbitrary: lo) fastforce+

lemma lastEnd_last: "cs \<noteq> [] \<Longrightarrow> lastEnd lo cs = nodeEnd (last cs)"
  by (induction cs arbitrary: lo) auto

lemma identity_aux:
  "(wellFormed n \<longrightarrow> writeModifiedText (Span_new src sepEnd n) = substring src (getStart n) (nodeEnd n))"
  "(list_all wellFormed cs \<longrightarrow> (\<forall>lo hi. rangesOrdered lo hi cs \<longrightarrow> cs \<noteq> [] \<longrightarrow>
       interleave False (map (\<lambda>c. (c, writeModifiedText c)) (childSpans src cs)) (map separator (childSpans src cs))
         = substring src (getStart (hd cs)) (lastEnd lo cs)))"
proof (induction src sepEnd n and src cs rule: Span_new_childSpans.induct)
  case (1 src sepEnd k s e cs)
  show ?case
  proof
    assume wf: "wellFormed (Node k s e cs)"
    then have ro: "rangesOrdered s e cs" and la: "list_all wellFormed cs" by simp_all
    show "writeModifiedText (Span_new src sepEnd (Node k s e cs)) = substring src (getStart (Node k s e cs)) (nodeEnd (Node k s e cs))"
    proof (cases cs)
      case Nil
      then show ?thesis by (simp add: defaultModification_def)
    next
      case (Cons c cs')
      with 1 la ro have mid: "interleave False (map (\<lambda>c. (c, writeModifiedText c)) (childSpans src cs)) (map separator (childSpans src cs))
         = substring src (getStart (hd cs)) (lastEnd s cs)" by blast
      have le1: "s \<le> getStart c" using ro Cons by simp
      have le2: "getStart c \<le> lastEnd s cs" using ro Cons rangesOrdered_lastEnd[of "nodeEnd c" e cs'] by simp
      have le3: "lastEnd s cs \<le> e" using rangesOrdered_lastEnd[OF ro] by simp
      have ll: "lastEnd s cs = nodeEnd (last cs)" using Cons lastEnd_last[of cs s] by simp
      have "writeModifiedText (Span_new src sepEnd (Node k s e cs)) =
          substring src s (getStart c) @ substring src (getStart c) (lastEnd s cs) @ substring src (lastEnd s cs) e"
        using Cons mid ll by (simp add: defaultModification_def Let_def)
      also have "\<dots> = substring src s e" using le1 le2 le3 by (simp add: substring_append)
      finally show ?thesis by simp
    qed
  qed
next
  case (2 src)
  show ?case by simp
next
  case (3 src c)
  show ?case using 3 by (auto simp: Span_new_sel defaultModification_def substring_same)
next
  case (4 src c c' cs)
  show ?case
  proof (intro impI allI)
    fix lo hi
    assume la: "list_all wellFormed (c # c' # cs)" and ro: "rangesOrdered lo hi (c # c' # cs)"
    from la 4 have r1: "writeModifiedText (Span_new src (getStart c') c) = substring src (getStart c) (nodeEnd c)" by simp
    from ro have ro': "rangesOrdered (nodeEnd c) hi (c' # cs)" by simp
    from la 4 ro' have r2: "interleave False (map (\<lambda>c. (c, writeModifiedText c)) (childSpans src (c' # cs))) (map separator (childSpans src (c' # cs)))
         = substring src (getStart c') (lastEnd (nodeEnd c) (c' # cs))" by auto
    have a: "getStart c \<le> nodeEnd c" "nodeEnd c \<le> getStart c'" using ro by simp_all
    have b: "getStart c' \<le> lastEnd (nodeEnd c) (c' # cs)" using ro rangesOrdered_lastEnd[of "nodeEnd c'" hi cs] by simp
    have "interleave False (map (\<lambda>c. (c, writeModifiedText c)) (childSpans src (c # c' # cs))) (map separator (childSpans src (c # c' # cs)))
        = substring src (getStart c) (nodeEnd c) @ substring src (nodeEnd c) (getStart c') @ substring src (getStart c') (lastEnd (nodeEnd c) (c' # cs))"
      using r1 r2 by (simp add: Span_new_sel defaultModification_def)
    also have "\<dots> = substring src (getStart c) (lastEnd (nodeEnd c) (c' # cs))"
      using a b by (simp add: substring_append)
    finally show "interleave False (map (\<lambda>c. (c, writeModifiedText c)) (childSpans src (c # c' # cs))) (map separator (childSpans src (c # c' # cs)))
        = substring src (getStart (hd (c # c' # cs))) (lastEnd lo (c # c' # cs))" by simp
  qed
qed

text \<open>
  Claim C1.  A span tree built from a well-formed syntax node, with every overlay left as
  the constructor made it, is written as the text of the node's range, character for
  character.
\<close>

theorem writeModifiedText_identity:
  "wellFormed n \<Longrightarrow> writeModifiedText (newSpan src n) = substring src (getStart n) (nodeEnd n)"
  using identity_aux(1)[of n src "nodeEnd n"] by (simp add: newSpan_def)

theorem writeModifiedText_identity_witness:
  "wellFormed classNode \<and>
   writeModifiedText (newSpan classSource classNode) = lit ''export class A { }''"
proof -
  have w: "wellFormed classNode" by code_simp
  have s: "substring classSource (getStart classNode) (nodeEnd classNode) = lit ''export class A { }''"
    by code_simp
  from writeModifiedText_identity[OF w, of classSource] w s show ?thesis by simp
qed

section \<open>The rewrite policy: identifiers\<close>

lemma prepareChild_modification:
  "prepareChild ext collector level D itl sortCh m child st = Inr (m1, child1, D1, st1)
   \<Longrightarrow> m1 = m \<or> m1 = m\<lparr>sortChildren := True\<rparr>"
  by (auto simp: prepareChild_def Let_def split: if_splits sum.splits bool.splits prod.splits)

lemma modifyChildren_modification:
  "modifyChildren ext collector rec level pk D itl sortCh m processed todo st = Some (Inr (m', cs, st'))
   \<Longrightarrow> m' = m \<or> m' = m\<lparr>sortChildren := True\<rparr>"
proof (induction todo arbitrary: m processed st)
  case Nil then show ?case by simp
next
  case (Cons child rest)
  from Cons.prems show ?case
    by (auto split: sum.splits option.splits prod.splits dest!: Cons.IH prepareChild_modification)
qed

lemma switch_identifier:
  "kind span = Identifier \<Longrightarrow>
   modifySpanSwitch ext collector rec entity pk prev span D itl st =
     (case modifyIdentifier collector span of
        Inl e \<Rightarrow> Some (Inl e)
      | Inr span1 \<Rightarrow> Some (Inr ((prev, span1, True, False, itl), st)))"
  by (simp add: modifySpanSwitch_def)

lemma modifySpan_identifier:
  assumes "kind span = Identifier"
    and "shouldIncludeInReport ext collector D level = Inr True"
    and "modifyIdentifier collector span = Inr span1"
  shows "modifySpan (Suc fuel) ext collector entity level itl pk prev span D st =
     (case modifyChildren ext collector (modifySpan fuel ext collector entity level itl) level
             (kind span1) D itl False (modification span1) [] (children span1) st of
        None \<Rightarrow> None
      | Some (Inl e) \<Rightarrow> Some (Inl e)
      | Some (Inr (m, children1, st2)) \<Rightarrow>
          Some (Inr (prev, setChildren children1 (mapModification (\<lambda>_. m) span1), st2)))"
  using assms by (simp add: switch_identifier)

lemma modifyIdentifier_tracked:
  "tryGetEntityForNode collector (node span) = Some e \<Longrightarrow> nameForEmit e = Some n \<Longrightarrow> n \<noteq> []
   \<Longrightarrow> modifyIdentifier collector span = Inr (setPrefix n span)"
  by (simp add: modifyIdentifier_def)

lemma modifyIdentifier_untracked:
  "tryGetEntityForNode collector (node span) = None \<Longrightarrow> modifyIdentifier collector span = Inr span"
  by (simp add: modifyIdentifier_def)

lemma getPrefix_sortChildren:
  "getPrefix (setChildren cs (mapModification (\<lambda>_. (modification s)\<lparr>sortChildren := b\<rparr>) s)) = getPrefix s"
  "getPrefix (setChildren cs (mapModification (\<lambda>_. modification s) s)) = getPrefix s"
  by (simp_all add: getPrefix_def split: option.splits)

lemma getPrefix_setPrefix: "getPrefix (setPrefix n s) = n"
  by (simp add: getPrefix_def setPrefix_def)

lemma writeModifiedText_renamed_leaf:
  "writeModifiedText (setPrefix n (Span_new src sepEnd (Node Identifier s e []))) = n"
  by (simp add: setPrefix_def defaultModification_def)

lemma modifyIdentifier_unnamed:
  "tryGetEntityForNode collector (node span) = Some e \<Longrightarrow> nameForEmit e = None \<or> nameForEmit e = Some []
   \<Longrightarrow> modifyIdentifier collector span = Inl (InternalError (lit ''referencedEntry.nameForEmit is undefined''))"
  by (auto simp: modifyIdentifier_def)

lemma modifySpan_identifier_error:
  assumes "kind span = Identifier"
    and "shouldIncludeInReport ext collector D level = Inr True"
    and "modifyIdentifier collector span = Inl err"
  shows "modifySpan (Suc fuel) ext collector entity level itl pk prev span D st = Some (Inl err)"
  using assms by (simp add: switch_identifier)

text \<open>
  Claim C5.  Let the rewrite pass reach an Identifier span, that is, let the declaration it
  belongs to be included.  If the identifier resolves to a tracked entity that has a
  (non-empty) \<open>nameForEmit\<close>, the prefix of the span, which is the text the span is written
  with, becomes that name whatever the identifier's own text was, so that every occurrence
  resolving to the entity is written with the same name; a leaf span is returned with no
  other change and is written as the name.  If the identifier resolves to no tracked
  entity, its prefix is left as it was.  (A tracked entity without a name makes the pass
  throw.)
\<close>

theorem modifySpan_identifier_rename:
  assumes "kind span = Identifier"
    and "shouldIncludeInReport ext collector D level = Inr True"
  shows
   "(tryGetEntityForNode collector (node span) = Some e \<and> nameForEmit e = Some n \<and> n \<noteq> [] \<longrightarrow>
       (\<forall>prev' span' st'.
           modifySpan (Suc fuel) ext collector entity level itl pk prev span D st
             = Some (Inr (prev', span', st')) \<longrightarrow>
           prefix (modification span') = Some n \<and> getPrefix span' = n) \<and>
       (children span = [] \<longrightarrow>
           modifySpan (Suc fuel) ext collector entity level itl pk prev span D st
             = Some (Inr (prev, setPrefix n span, st))) \<and>
       writeModifiedText (setPrefix n (Span_new src sepEnd (Node Identifier a b []))) = n) \<and>
    (tryGetEntityForNode collector (node span) = None \<longrightarrow>
       (\<forall>prev' span' st'.
           modifySpan (Suc fuel) ext collector entity level itl pk prev span D st
             = Some (Inr (prev', span', st')) \<longrightarrow>
           prefix (modification span') = prefix (modification span) \<and> getPrefix span' = getPrefix span) \<and>
       (children span = [] \<longrightarrow>
           modifySpan (Suc fuel) ext collector entity level itl pk prev span D st
             = Some (Inr (prev, span, st)))) \<and>
    (tryGetEntityForNode collector (node span) = Some e \<and> (nameForEmit e = None \<or> nameForEmit e = Some []) \<longrightarrow>
       modifySpan (Suc fuel) ext collector entity level itl pk prev span D st
         = Some (Inl (InternalError (lit ''referencedEntry.nameForEmit is undefined''))))"
proof (intro conjI impI allI)
  assume t: "tryGetEntityForNode collector (node span) = Some e \<and> nameForEmit e = Some n \<and> n \<noteq> []"
  then have mi: "modifyIdentifier collector span = Inr (setPrefix n span)"
    by (simp add: modifyIdentifier_tracked)
  note eq = modifySpan_identifier[OF assms mi, where fuel=fuel and entity=entity and itl=itl and pk=pk and prev=prev and st=st]
  show "writeModifiedText (setPrefix n (Span_new src sepEnd (Node Identifier a b []))) = n"
    by (rule writeModifiedText_renamed_leaf)
  { assume "children span = []"
    then show "modifySpan (Suc fuel) ext collector entity level itl pk prev span D st
             = Some (Inr (prev, setPrefix n span, st))"
      using eq span_rebuild[of "setPrefix n span"] by (simp add: setPrefix_def) }
  { fix prev' span' st'
    assume r: "modifySpan (Suc fuel) ext collector entity level itl pk prev span D st = Some (Inr (prev', span', st'))"
    then obtain m cs where
      mc: "modifyChildren ext collector (modifySpan fuel ext collector entity level itl) level
             (kind (setPrefix n span)) D itl False (modification (setPrefix n span)) []
             (children (setPrefix n span)) st = Some (Inr (m, cs, st'))"
      and sp: "span' = setChildren cs (mapModification (\<lambda>_. m) (setPrefix n span))"
      unfolding eq by (auto split: option.splits sum.splits)
    from modifyChildren_modification[OF mc]
    have "m = modification (setPrefix n span) \<or> m = (modification (setPrefix n span))\<lparr>sortChildren := True\<rparr>" .
    with sp show "prefix (modification span') = Some n" by (auto simp: setPrefix_def)
    from \<open>m = modification (setPrefix n span) \<or> m = (modification (setPrefix n span))\<lparr>sortChildren := True\<rparr>\<close> sp
    show "getPrefix span' = n"
      using getPrefix_sortChildren[where cs=cs and s="setPrefix n span"] getPrefix_setPrefix[of n span] by auto }
next
  assume u: "tryGetEntityForNode collector (node span) = None"
  then have mi: "modifyIdentifier collector span = Inr span"
    by (simp add: modifyIdentifier_untracked)
  note eq = modifySpan_identifier[OF assms mi, where fuel=fuel and entity=entity and itl=itl and pk=pk and prev=prev and st=st]
  { assume "children span = []"
    then show "modifySpan (Suc fuel) ext collector entity level itl pk prev span D st
             = Some (Inr (prev, span, st))"
      using eq span_rebuild[of span] by simp }
  { fix prev' span' st'
    assume r: "modifySpan (Suc fuel) ext collector entity level itl pk prev span D st = Some (Inr (prev', span', st'))"
    then obtain m cs where
      mc: "modifyChildren ext collector (modifySpan fuel ext collector entity level itl) level
             (kind span) D itl False (modification span) [] (children span) st = Some (Inr (m, cs, st'))"
      and sp: "span' = setChildren cs (mapModification (\<lambda>_. m) span)"
      unfolding eq by (auto split: option.splits sum.splits)
    from modifyChildren_modification[OF mc]
    have d: "m = modification span \<or> m = (modification span)\<lparr>sortChildren := True\<rparr>" .
    with sp show "prefix (modification span') = prefix (modification span)" by auto
    from d sp show "getPrefix span' = getPrefix span"
      using getPrefix_sortChildren[where cs=cs and s=span] by auto }
next
  assume "tryGetEntityForNode collector (node span) = Some e \<and> (nameForEmit e = None \<or> nameForEmit e = Some [])"
  then have "modifyIdentifier collector span = Inl (InternalError (lit ''referencedEntry.nameForEmit is undefined''))"
    using modifyIdentifier_unnamed[of collector span e] by blast
  from modifySpan_identifier_error[OF assms this]
  show "modifySpan (Suc fuel) ext collector entity level itl pk prev span D st
         = Some (Inl (InternalError (lit ''referencedEntry.nameForEmit is undefined'')))" .
qed

lemma example_include:
  "shouldIncludeInReport exampleExtern (exampleCollector []) (exampleDeclaration 0 (lit ''p'')) Public = Inr True"
  by code_simp

theorem modifySpan_identifier_rename_witness:
  "modifySpan 1 exampleExtern (exampleCollector []) (exampleEntity (AstImport (lit ''W'')) True False (lit ''W''))
      Public False None None (newSpan classSource (Node Identifier 20 21 [])) (exampleDeclaration 0 (lit ''p'')) ()
     = Some (Inr (None, setPrefix (lit ''Widget'') (newSpan classSource (Node Identifier 20 21 [])), ())) \<and>
   writeModifiedText (setPrefix (lit ''Widget'') (newSpan classSource (Node Identifier 20 21 []))) = lit ''Widget'' \<and>
   modifySpan 1 exampleExtern (exampleCollector []) (exampleEntity (AstImport (lit ''W'')) True False (lit ''W''))
      Public False None None (newSpan classSource (Node Identifier 14 19 [])) (exampleDeclaration 0 (lit ''p'')) ()
     = Some (Inr (None, newSpan classSource (Node Identifier 14 19 []), ()))"
proof -
  let ?t = "newSpan classSource (Node Identifier 20 21 [])"
  let ?u = "newSpan classSource (Node Identifier 14 19 [])"
  let ?e = "exampleEntity (AstImport (lit ''W'')) True False (lit ''Widget'')"
  have k: "kind ?t = Identifier" "kind ?u = Identifier" by (simp_all add: newSpan_def)
  have c: "children ?t = []" "children ?u = []" by (simp_all add: newSpan_def)
  have t: "tryGetEntityForNode (exampleCollector []) (node ?t) = Some ?e \<and> nameForEmit ?e = Some (lit ''Widget'') \<and> lit ''Widget'' \<noteq> []"
    by (simp add: newSpan_def exampleCollector_def exampleEntity_def lit_def)
  have u: "tryGetEntityForNode (exampleCollector []) (node ?u) = None"
    by (simp add: newSpan_def exampleCollector_def)
  from modifySpan_identifier_rename[OF k(1) example_include,
          where e = ?e and n = "lit ''Widget''" and src = classSource and sepEnd = 21 and a = 20 and b = 21]
       modifySpan_identifier_rename[OF k(2) example_include, where e = ?e and n = "lit ''Widget''"]
       t u c
  show ?thesis by (simp add: Public_def newSpan_def)
qed

section \<open>The policy for preapproved declarations: properties\<close>

lemma preapprovedChildren_True: "preapprovedChildren True cs = map skipFollowing cs"
  by (induction cs) (auto simp: skipFollowing_def markIdentifier_def Let_def)

lemma preapprovedChildren_noIdentifier:
  "\<forall>c\<in>set cs. kind c \<noteq> Identifier \<Longrightarrow> preapprovedChildren False cs = map skipLists cs"
  by (induction cs) (auto simp: skipLists_def Let_def)

lemma preapprovedChildren_split:
  "\<forall>c\<in>set before. kind c \<noteq> Identifier \<Longrightarrow> kind ident = Identifier \<Longrightarrow>
   preapprovedChildren False (before @ ident # after) =
     map skipLists before @ markIdentifier ident # map skipFollowing after"
  by (induction before) (auto simp: skipLists_def Let_def preapprovedChildren_True markIdentifier_def)

text \<open>
  Claim C8, as stated, fails: the marker that the policy attaches to the identifier is
  \<open> { /* (preapproved) */ }\<close>, not \<open>{ /* collapsed */ }\<close>.
\<close>

theorem modifySpanForPreapproved_marker:
  "suffix (modification (hd (children (modifySpanForPreapproved
      (exampleSpan (OtherKind 263) [] [exampleSpan Identifier (lit ''A'') []])))))
    = Some (lit '' { /* (preapproved) */ }'')
   \<and> lit '' { /* (preapproved) */ }'' \<noteq> lit ''{ /* collapsed */ }''"
  by code_simp

text \<open>
  Claim C8, amended.  For a declaration flagged preapproved the generator writes the span
  rewritten by \<open>_modifySpanForPreapproved\<close>; \<open>_modifySpan\<close> is not run (no recursion budget
  is needed).  That policy is not recursive: it leaves the span's own overlay and the
  children of its children as they are.  Without an Identifier child it applies \<open>skipAll\<close>
  to the SyntaxList and JSDocComment children only.  Otherwise, up to the first Identifier
  child it applies \<open>skipAll\<close> to the SyntaxList and JSDocComment children; on that
  identifier it sets the suffix \<open> { /* (preapproved) */ }\<close> and omits the separator after
  it; and it applies \<open>skipAll\<close> to every child after it (a later Identifier child is given
  the same suffix and omitted separator on top).
\<close>

theorem modifySpanForPreapproved_policy:
  "(isPreapproved (fetchApiItemMetadata collector D) \<longrightarrow>
      (\<exists>ex synopsis st'. emitDeclaration fuel ext collector options entity D exportsToEmit writer st =
         Some (Inr (ex, writer @ [EnsureSkippedLine, Write synopsis,
            Write (writeModifiedText (modifySpanForPreapproved
                     (newSpan (sourceFileText ext (declarationNode D)) (declarationNode D)))),
            EnsureNewLine], st')))) \<and>
   kind (modifySpanForPreapproved span) = kind span \<and>
   modification (modifySpanForPreapproved span) = modification span \<and>
   map children (children (modifySpanForPreapproved span)) = map children (children span) \<and>
   ((\<forall>c\<in>set (children span). kind c \<noteq> Identifier) \<longrightarrow>
      children (modifySpanForPreapproved span) = map skipLists (children span)) \<and>
   (children span = before @ ident # after \<and> (\<forall>c\<in>set before. kind c \<noteq> Identifier) \<and> kind ident = Identifier \<longrightarrow>
      children (modifySpanForPreapproved span) =
        map skipLists before @ markIdentifier ident # map skipFollowing after)"
proof -
  have 1: "isPreapproved (fetchApiItemMetadata collector D) \<Longrightarrow>
      (\<exists>ex synopsis st'. emitDeclaration fuel ext collector options entity D exportsToEmit writer st =
         Some (Inr (ex, writer @ [EnsureSkippedLine, Write synopsis,
            Write (writeModifiedText (modifySpanForPreapproved
                     (newSpan (sourceFileText ext (declarationNode D)) (declarationNode D)))),
            EnsureNewLine], st')))"
    by (simp add: emitDeclaration_def Let_def split: prod.splits)
  have 2: "map children (preapprovedChildren b cs) = map children cs" for b cs
    by (induction cs arbitrary: b) (auto simp: Let_def setSuffix_def setOmitSeparatorAfter_def)
  show ?thesis
    using 1 2[of False "children span"] preapprovedChildren_noIdentifier[of "children span"]
      preapprovedChildren_split[of before ident after]
    by (auto simp: modifySpanForPreapproved_def)
qed

theorem modifySpanForPreapproved_policy_witness:
  "children (modifySpanForPreapproved
      (exampleSpan (OtherKind 263) []
         [exampleSpan SyntaxList [] [], exampleSpan ClassKeyword (lit ''class'') [],
          exampleSpan Identifier (lit ''A'') [], exampleSpan (OtherKind 19) (lit ''{'') []]))
   = [mapModification skipAll (exampleSpan SyntaxList [] []),
      exampleSpan ClassKeyword (lit ''class'') [],
      setSuffix (lit '' { /* (preapproved) */ }'')
        (setOmitSeparatorAfter True (exampleSpan Identifier (lit ''A'') [])),
      mapModification skipAll (exampleSpan (OtherKind 19) (lit ''{'') [])] \<and>
   (\<exists>ex synopsis st'.
      emitDeclaration 0 exampleExtern (exampleCollector [])  \<lparr>releaseLevel = Public\<rparr>
        (exampleEntity (AstImport (lit ''W'')) True False (lit ''W''))
        (exampleDeclaration 0 (lit ''q'')) [] [] () =
      Some (Inr (ex, [EnsureSkippedLine, Write synopsis,
            Write (writeModifiedText (modifySpanForPreapproved
                     (newSpan (sourceFileText exampleExtern exampleNode) exampleNode))),
            EnsureNewLine], st')))"
proof -
  let ?span = "exampleSpan (OtherKind 263) []
         [exampleSpan SyntaxList [] [], exampleSpan ClassKeyword (lit ''class'') [],
          exampleSpan Identifier (lit ''A'') [], exampleSpan (OtherKind 19) (lit ''{'') []]"
  have c: "children ?span =
             [exampleSpan SyntaxList [] [], exampleSpan ClassKeyword (lit ''class'') []]
             @ exampleSpan Identifier (lit ''A'') [] # [exampleSpan (OtherKind 19) (lit ''{'') []]
           \<and> (\<forall>c\<in>set [exampleSpan SyntaxList [] [], exampleSpan ClassKeyword (lit ''class'') []].
                 kind c \<noteq> Identifier)
           \<and> kind (exampleSpan Identifier (lit ''A'') []) = Identifier"
    by (simp add: exampleSpan_def)
  have p: "isPreapproved (fetchApiItemMetadata (exampleCollector []) (exampleDeclaration 0 (lit ''q'')))"
    by (simp add: exampleCollector_def exampleMetadata_def exampleDeclaration_simps)
  from modifySpanForPreapproved_policy
         [where span = ?span
            and before = "[exampleSpan SyntaxList [] [], exampleSpan ClassKeyword (lit ''class'') []]"
            and ident = "exampleSpan Identifier (lit ''A'') []"
            and after = "[exampleSpan (OtherKind 19) (lit ''{'') []]"
            and collector = "exampleCollector []" and D = "exampleDeclaration 0 (lit ''q'')"
            and fuel = 0 and ext = exampleExtern and options = "\<lparr>releaseLevel = Public\<rparr>"
            and entity = "exampleEntity (AstImport (lit ''W'')) True False (lit ''W'')"
            and exportsToEmit = "[]" and writer = "[]" and st = "()"]
       c p
  show ?thesis
    by (simp add: skipLists_def skipFollowing_def markIdentifier_def exampleSpan_def
          preapprovedSuffix_def exampleDeclaration_simps)
qed

section \<open>Trailing spaces: properties\<close>

lemma trimSpaces_hd:
  "dropWhile (\<lambda>x. x = SPACE) cs \<noteq> [] \<Longrightarrow> \<not> isLineTerminator (hd (dropWhile (\<lambda>x. x = SPACE) cs))
   \<Longrightarrow> trimSpaces cs \<noteq> [] \<and> \<not> isLineTerminator (hd (trimSpaces cs))"
  by (cases cs) (auto simp: isLineTerminator_def SPACE_def Let_def)

lemma trimSpaces_noSpaceBeforeEol: "noSpaceBeforeEol (trimSpaces s)"
proof (induction s rule: trimSpaces.induct)
  case 1 show ?case by simp
next
  case (2 c cs)
  show ?case
  proof (cases "c = SPACE")
    case False with 2 show ?thesis by simp
  next
    case True
    let ?rest = "dropWhile (\<lambda>x. x = SPACE) cs"
    show ?thesis
    proof (cases "?rest = [] \<or> isLineTerminator (hd ?rest)")
      case True with 2 \<open>c = SPACE\<close> show ?thesis by (simp add: Let_def)
    next
      case False
      with trimSpaces_hd[of cs] have "trimSpaces cs \<noteq> [] \<and> \<not> isLineTerminator (hd (trimSpaces cs))" by auto
      with 2 \<open>c = SPACE\<close> False show ?thesis by (simp add: Let_def)
    qed
  qed
qed

lemma splitLines_nonempty: "splitLines s \<noteq> []"
  by (induction s) (auto split: list.splits)

lemma hd_splitLines_empty: "hd (splitLines s) = [] \<longleftrightarrow> s = [] \<or> hd s = LF"
  by (cases s) (auto split: list.splits)

lemma noSpaceBeforeEol_lines:
  "noSpaceBeforeEol t \<Longrightarrow> \<forall>l\<in>set (splitLines t). l = [] \<or> last l \<noteq> SPACE"
proof (induction t)
  case Nil show ?case by simp
next
  case (Cons c cs)
  then have IH: "\<forall>l\<in>set (splitLines cs). l = [] \<or> last l \<noteq> SPACE" by simp
  show ?case
  proof (cases "c = LF")
    case True with IH show ?thesis by simp
  next
    case False
    obtain l ls where sl: "splitLines cs = l # ls" using splitLines_nonempty[of cs] by (cases "splitLines cs") auto
    have "l = [] \<longleftrightarrow> cs = [] \<or> hd cs = LF" using hd_splitLines_empty[of cs] sl by simp
    moreover have "isLineTerminator LF" by (simp add: isLineTerminator_def LF_def)
    ultimately have "l = [] \<Longrightarrow> c \<noteq> SPACE" using Cons.prems by auto
    with IH sl False show ?thesis by auto
  qed
qed

lemma generate_is_trimmed:
  "generateReviewFileContent fuel ext collector options st = Some (Inr (report, st'))
   \<Longrightarrow> \<exists>writer. report = trimSpaces (writerToString ext writer)"
  by (auto simp: generateReviewFileContent_def Let_def split: option.splits sum.splits prod.splits)

text \<open>
  Claim C9, as stated, fails: only U+0020 is removed, so a line of the report can end with
  another whitespace character.  Here the first line of the declaration ends with a tab,
  and so does that line of the report.
\<close>

theorem generateReviewFileContent_trailing_tab:
  "(case reportOf (generateReviewFileContent 1 (exampleExternFor tabbedSource)
            (exampleCollector
               [exampleEntity (AstSymbol (lit ''A'') [exampleDeclaration 0 (lit ''A'')]) True False (lit ''A'')])
            \<lparr>releaseLevel = Public\<rparr> ()) of
      Some report \<Rightarrow> (lit ''class A {'' @ [TAB]) \<in> set (splitLines report)
    | None \<Rightarrow> False) \<and>
   isWhiteSpace (last (lit ''class A {'' @ [TAB]))"
  by code_simp

text \<open>
  Claim C9, amended.  The report that \<open>generateReviewFileContent\<close> returns is the text of the
  writer with its trailing spaces removed as the last step: no line of the report ends
  with a space (U+0020), and no space stands before any line terminator or at the end.
  Other whitespace at the end of a line is kept.
\<close>

theorem generateReviewFileContent_trimmed:
  assumes "generateReviewFileContent fuel ext collector options st = Some (Inr (report, st'))"
  shows "(\<exists>writer. report = trimSpaces (writerToString ext writer)) \<and>
         (\<forall>l\<in>set (splitLines report). l = [] \<or> last l \<noteq> SPACE) \<and> noSpaceBeforeEol report"
  using generate_is_trimmed[OF assms] trimSpaces_noSpaceBeforeEol noSpaceBeforeEol_lines by auto

theorem generateReviewFileContent_trimmed_witness:
  "(case reportOf (generateReviewFileContent 1 (exampleExternFor (lit ''class A { '' @ [LF] @ lit ''}''))
            (exampleCollector
               [exampleEntity (AstSymbol (lit ''A'') [exampleDeclaration 0 (lit ''A'')]) True False (lit ''A'')])
            \<lparr>releaseLevel = Public\<rparr> ()) of
      Some report \<Rightarrow> (lit ''class A {'') \<in> set (splitLines report) \<and> noSpaceBeforeEol report
    | None \<Rightarrow> False)"
proof -
  let ?g = "generateReviewFileContent 1 (exampleExternFor (lit ''class A { '' @ [LF] @ lit ''}''))
            (exampleCollector
               [exampleEntity (AstSymbol (lit ''A'') [exampleDeclaration 0 (lit ''A'')]) True False (lit ''A'')])
            \<lparr>releaseLevel = Public\<rparr> ()"
  have 1: "(case reportOf ?g of Some report \<Rightarrow> (lit ''class A {'') \<in> set (splitLines report) | None \<Rightarrow> False)"
    by code_simp
  then obtain report where r: "reportOf ?g = Some report" by (cases "reportOf ?g") auto
  then obtain st' where g: "?g = Some (Inr (report, st'))"
    by (auto simp: reportOf_def split: option.splits sum.splits prod.splits)
  from generateReviewFileContent_trimmed[OF g] 1 r show ?thesis by simp
qed

section \<open>Namespace imports with a star export\<close>

lemma emitEntities_append:
  "emitEntities fuel ext collector options (xs @ ys) w st =
     (case emitEntities fuel ext collector options xs w st of
        None \<Rightarrow> None
      | Some (Inl e) \<Rightarrow> Some (Inl e)
      | Some (Inr (w1, st1)) \<Rightarrow> emitEntities fuel ext collector options ys w1 st1)"
  by (induction xs arbitrary: w st) (auto split: option.splits sum.splits)

lemma emitEntity_namespace_star:
  assumes "isAstNamespaceImport (astEntity entity)"
    and "consumable entity \<or> apiReportIncludeForgottenExports collector"
    and "nameForEmit entity = Some name"
    and "starExportedExternalModules (fetchAstModuleExportInfo collector (astEntity entity)) \<noteq> []"
  shows "emitEntity fuel ext collector options entity writer st =
           Some (Inl (Error (starExportMessage ext name (namespaceDeclaration (astEntity entity)))))"
  using assms
  by (cases "astEntity entity")
     (auto simp: emitEntity_def emitNamespaceImport_def starExportMessage_def Let_def)

lemma emitEntities_no_report:
  assumes "\<And>w st. \<exists>e. emitEntity fuel ext collector options entity w st = Some (Inl e)"
  shows "\<nexists>r. emitEntities fuel ext collector options (before @ entity # rest) w st = Some (Inr r)"
proof -
  have "\<nexists>r. emitEntities fuel ext collector options (entity # rest) w1 st1 = Some (Inr r)" for w1 st1
    using assms[of w1 st1] by auto
  then show ?thesis
    by (auto simp: emitEntities_append split: option.splits sum.splits)
qed

text \<open>
  Claim C6, as stated, fails: an entity is emitted only if it is consumable or forgotten
  exports are included in the report.  A namespace import that is not consumable is
  passed over, star export or not, and the report is produced.
\<close>

theorem generateReviewFileContent_namespace_skipped:
  "reportOf (generateReviewFileContent 0 exampleExtern
      (exampleCollector [exampleEntity (AstNamespaceImport (lit ''ns'') exampleNode) False False (lit ''A'')])
      \<lparr>releaseLevel = Public\<rparr> ()) \<noteq> None
   \<and> isAstNamespaceImport
       (astEntity (exampleEntity (AstNamespaceImport (lit ''ns'') exampleNode) False False (lit ''A'')))
   \<and> starExportedExternalModules
       (fetchAstModuleExportInfo
          (exampleCollector [exampleEntity (AstNamespaceImport (lit ''ns'') exampleNode) False False (lit ''A'')])
          (astEntity (exampleEntity (AstNamespaceImport (lit ''ns'') exampleNode) False False (lit ''A''))))
       = [lit ''external-pkg'']"
  by code_simp

text \<open>
  Claim C6, amended.  Let a namespace import among the collector's entities be emitted
  (it is consumable, or forgotten exports are included), have a \<open>nameForEmit\<close>, and let its
  module have a star export of an external module.  Then the generator returns no report;
  and if the entities before it are emitted without an error, the generator throws the
  error whose message names the namespace by its \<open>nameForEmit\<close> and ends with the formatted
  location of the namespace import's declaration.
\<close>

theorem generateReviewFileContent_namespace_star:
  assumes "entities collector = before @ entity # rest"
    and "isAstNamespaceImport (astEntity entity)"
    and "consumable entity \<or> apiReportIncludeForgottenExports collector"
    and "nameForEmit entity = Some name"
    and "starExportedExternalModules (fetchAstModuleExportInfo collector (astEntity entity)) \<noteq> []"
  shows "reportOf (generateReviewFileContent fuel ext collector options st) = None \<and>
         (\<forall>w st1. emitEntities fuel ext collector options before (reportHead collector) st = Some (Inr (w, st1)) \<longrightarrow>
            generateReviewFileContent fuel ext collector options st =
              Some (Inl (Error (starExportMessage ext name (namespaceDeclaration (astEntity entity))))))"
proof -
  note star = emitEntity_namespace_star[OF assms(2-5), of fuel ext options]
  have "\<nexists>r. emitEntities fuel ext collector options (before @ entity # rest) (reportHead collector) st = Some (Inr r)"
    by (rule emitEntities_no_report) (simp add: star)
  then have 1: "reportOf (generateReviewFileContent fuel ext collector options st) = None"
    by (auto simp: reportOf_def generateReviewFileContent_def assms(1) split: option.splits sum.splits)
  have 2: "generateReviewFileContent fuel ext collector options st =
              Some (Inl (Error (starExportMessage ext name (namespaceDeclaration (astEntity entity)))))"
    if "emitEntities fuel ext collector options before (reportHead collector) st = Some (Inr (w, st1))" for w st1
    using that by (simp add: generateReviewFileContent_def assms(1) emitEntities_append star)
  from 1 2 show ?thesis by blast
qed

theorem generateReviewFileContent_namespace_star_witness:
  "generateReviewFileContent 0 exampleExtern
    (exampleCollector [exampleEntity (AstImport (lit ''i'')) True False (lit ''i''), exampleEntity (AstNamespaceImport (lit ''ns'') exampleNode) True False (lit ''A'')]) \<lparr>releaseLevel = Public\<rparr> ()
   = Some (Inl (Error (lit ''The A namespace import includes a star export, which is not supported:'' @ [LF] @ lit ''index.d.ts:1:1'')))"
proof -
  let ?i = "exampleEntity (AstImport (lit ''i'')) True False (lit ''i'')"
  let ?e = "exampleEntity (AstNamespaceImport (lit ''ns'') exampleNode) True False (lit ''A'')"
  let ?c = "exampleCollector [?i, ?e]"
  have 1: "entities ?c = [?i] @ ?e # []" by (simp add: exampleCollector_def)
  have 2: "isAstNamespaceImport (astEntity ?e)" by (simp add: exampleEntity_def)
  have 3: "consumable ?e \<or> apiReportIncludeForgottenExports ?c" by (simp add: exampleEntity_def)
  have 4: "nameForEmit ?e = Some (lit ''A'')" by (simp add: exampleEntity_def)
  have 5: "starExportedExternalModules (fetchAstModuleExportInfo ?c (astEntity ?e)) \<noteq> []"
    by (simp add: exampleEntity_def exampleCollector_def)
  have 6: "\<exists>w st1. emitEntities 0 exampleExtern ?c \<lparr>releaseLevel = Public\<rparr> [?i] (reportHead ?c) () = Some (Inr (w, st1))"
    by (simp add: emitEntity_def exampleEntity_def collectExportsToEmit_def emitExports_def)
  have 7: "starExportMessage exampleExtern (lit ''A'') (namespaceDeclaration (astEntity ?e)) =
     lit ''The A namespace import includes a star export, which is not supported:'' @ [LF] @ lit ''index.d.ts:1:1''"
    by (simp add: starExportMessage_def exampleExtern_def exampleExternFor_def lit_def)
  from generateReviewFileContent_namespace_star[OF 1 2 3 4 5, of 0 exampleExtern "\<lparr>releaseLevel = Public\<rparr>" "()"] 6 7 show ?thesis by auto
qed

section \<open>Inlined exports\<close>









end
